theory Spec2Isabelle
  imports Main "HOL-Library.Sublist"
begin

section \<open>JavaScript string and array operations used by the tools\<close>

text \<open>
  A JavaScript string is a sequence of code units; it is modelled as a \<open>string\<close>
  (a list of \<open>char\<close>), one \<open>char\<close> per code unit. The operations below follow the
  ECMAScript algorithms of the methods the source calls on strings and arrays.
\<close>

text \<open>\<open>StringIndexOf(S, R, 0)\<close>: the least position at which \<open>R\<close> occurs in \<open>S\<close>.\<close>

fun indexOf :: "string \<Rightarrow> string \<Rightarrow> nat option" where
  "indexOf [] R = (if R = [] then Some 0 else None)"
| "indexOf (c # cs) R =
     (if prefix R (c # cs) then Some 0 else map_option Suc (indexOf cs R))"

text \<open>\<open>S.includes(R)\<close>.\<close>

definition includes_js :: "string \<Rightarrow> string \<Rightarrow> bool" where
  "includes_js S R = (indexOf S R \<noteq> None)"

text \<open>
  \<open>GetSubstitution\<close> for a string pattern (no capture groups): in the replacement
  template \<open>$$\<close> stands for a dollar sign, \<open>$&\<close> for the matched text, \<open>$`\<close> for the
  text before the match and \<open>$'\<close> for the text after it. With no captures, \<open>$\<close> followed by
  digits or by \<open><\<close> is copied unchanged, as is every other code unit.
\<close>

fun getSubstitution :: "string \<Rightarrow> string \<Rightarrow> nat \<Rightarrow> string \<Rightarrow> string" where
  "getSubstitution matched str position [] = []"
| "getSubstitution matched str position [c] = [c]"
| "getSubstitution matched str position (c # d # rest) =
     (if c = CHR ''$'' \<and> d = CHR ''$'' then
        CHR ''$'' # getSubstitution matched str position rest
      else if c = CHR ''$'' \<and> d = CHR ''&'' then
        matched @ getSubstitution matched str position rest
      else if c = CHR ''$'' \<and> d = CHR 0x60 then
        take position str @ getSubstitution matched str position rest
      else if c = CHR ''$'' \<and> d = CHR 0x27 then
        drop (position + length matched) str @ getSubstitution matched str position rest
      else c # getSubstitution matched str position (d # rest))"

text \<open>\<open>S.replace(searchString, replaceValue)\<close> with a string pattern: only the first
  occurrence is replaced, by the expansion of the replacement template.\<close>

definition replace_js :: "string \<Rightarrow> string \<Rightarrow> string \<Rightarrow> string" where
  "replace_js S searchString replaceValue =
     (case indexOf S searchString of
        None \<Rightarrow> S
      | Some pos \<Rightarrow>
          take pos S @ getSubstitution searchString S pos replaceValue
            @ drop (pos + length searchString) S)"

lemma indexOf_bound: "indexOf S R = Some j \<Longrightarrow> j + length R \<le> length S"
proof (induction S arbitrary: j)
  case Nil
  then show ?case by (simp split: if_splits)
next
  case (Cons c cs)
  show ?case
  proof (cases "prefix R (c # cs)")
    case True
    with Cons.prems have "j = 0" by simp
    from True have "length R \<le> length (c # cs)" by (rule prefix_length_le)
    with \<open>j = 0\<close> show ?thesis by simp
  next
    case False
    with Cons.prems obtain k where "indexOf cs R = Some k" "j = Suc k" by auto
    with Cons.IH show ?thesis by fastforce
  qed
qed

text \<open>\<open>S.split(R)\<close> with a string separator and no limit: an empty separator yields the
  code units of \<open>S\<close>; otherwise \<open>S\<close> is cut at each occurrence of \<open>R\<close>, found from left to
  right, each search starting after the previous occurrence.\<close>

function split_js :: "string \<Rightarrow> string \<Rightarrow> string list" where
  "split_js S R =
     (if R = [] then map (\<lambda>c. [c]) S
      else (case indexOf S R of
              None \<Rightarrow> [S]
            | Some j \<Rightarrow> take j S # split_js (drop (j + length R) S) R))"
  by pat_completeness auto
termination
proof (relation "measure (\<lambda>(S, R). length S)")
  show "wf (measure (\<lambda>(S, R). length S))" by simp
next
  fix S R :: string and j :: nat
  assume "R \<noteq> []" and "indexOf S R = Some j"
  then have "j + length R \<le> length S" and "0 < length R"
    by (simp_all add: indexOf_bound)
  then have "length S - (j + length R) < length S" by arith
  then show "((drop (j + length R) S, R), (S, R)) \<in> measure (\<lambda>(S, R). length S)"
    by simp
qed

declare split_js.simps [simp del]

text \<open>\<open>xs.join(sep)\<close> on an array of strings.\<close>

fun join_js :: "string list \<Rightarrow> string \<Rightarrow> string" where
  "join_js [] sep = []"
| "join_js [x] sep = x"
| "join_js (x # y # ys) sep = x @ sep @ join_js (y # ys) sep"

text \<open>\<open>xs.slice(start, end)\<close>: a negative index counts from the end of the array, and
  both indices are clamped to the array.\<close>

definition slice_js :: "'a list \<Rightarrow> int \<Rightarrow> int \<Rightarrow> 'a list" where
  "slice_js xs start end =
     (let len = int (length xs);
          k = (if start < 0 then max (len + start) 0 else min start len);
          final = (if end < 0 then max (len + end) 0 else min end len);
          count = max (final - k) 0
      in take (nat count) (drop (nat k) xs))"

text \<open>The white space that \<open>trim\<close> strips, among the code units below 256.\<close>

definition isWhiteSpace :: "char \<Rightarrow> bool" where
  "isWhiteSpace c = (c \<in> set [CHR 0x09, CHR 0x0A, CHR 0x0B, CHR 0x0C, CHR 0x0D, CHR 0x20, CHR 0xA0])"

definition trim_js :: "string \<Rightarrow> string" where
  "trim_js S = rev (dropWhile isWhiteSpace (rev (dropWhile isWhiteSpace S)))"

text \<open>The decimal text of an integer, as a template literal renders a number.\<close>

fun digits :: "nat \<Rightarrow> string" where
  "digits n = (if n < 10 then [''0123456789'' ! n] else digits (n div 10) @ [''0123456789'' ! (n mod 10)])"

declare digits.simps [simp del]

definition numberToString :: "int \<Rightarrow> string" where
  "numberToString i = (if i < 0 then CHR ''-'' # digits (nat (- i)) else digits (nat i))"

text \<open>\<open>JSON.stringify\<close> of an array of strings: each string is quoted, with the quote, the
  backslash and the control characters escaped, and the elements are separated by commas.\<close>

definition hexDigit :: "nat \<Rightarrow> char" where
  "hexDigit n = ''0123456789abcdef'' ! n"

definition quoteJSONChar :: "char \<Rightarrow> string" where
  "quoteJSONChar c =
     (if c = CHR 0x08 then [CHR 0x5C, CHR ''b'']
      else if c = CHR 0x09 then [CHR 0x5C, CHR ''t'']
      else if c = CHR 0x0A then [CHR 0x5C, CHR ''n'']
      else if c = CHR 0x0C then [CHR 0x5C, CHR ''f'']
      else if c = CHR 0x0D then [CHR 0x5C, CHR ''r'']
      else if c = CHR 0x22 then [CHR 0x5C, CHR 0x22]
      else if c = CHR 0x5C then [CHR 0x5C, CHR 0x5C]
      else if of_char c < (32 :: nat) then
        [CHR 0x5C, CHR ''u'', CHR ''0'', CHR ''0'',
         hexDigit (of_char c div 16), hexDigit (of_char c mod 16)]
      else [c])"

definition quoteJSONString :: "string \<Rightarrow> string" where
  "quoteJSONString S = [CHR 0x22] @ concat (map quoteJSONChar S) @ [CHR 0x22]"

definition stringify_strings :: "string list \<Rightarrow> string" where
  "stringify_strings xs = ''['' @ join_js (map quoteJSONString xs) '','' @ '']''"

section \<open>The file system, the shell and the libraries the tools call\<close>

text \<open>
  The file system holds the content of every readable file. A read of a path with no
  readable file rejects with the message \<open>read_error\<close> gives; a write to a path in
  \<open>write_error\<close> rejects with that message and leaves the file as it was; \<open>mkdir_error\<close>
  holds the file paths whose parent directories cannot be created.
  Two paths are the same file only when they are the same text.
\<close>

record file_system =
  files :: "string \<rightharpoonup> string"
  read_error :: "string \<Rightarrow> string"
  write_error :: "string \<rightharpoonup> string"
  mkdir_error :: "string \<rightharpoonup> string"

text \<open>What \<open>execAsync(command)\<close> does: it resolves with the standard output and the error
  output when the command exits with status 0; otherwise it rejects with an error that
  carries a message and, again, the two outputs.\<close>

datatype exec_outcome = Resolved string string | Rejected string string string

text \<open>
  The parts of the platform that the source calls and does not define: the working
  directory, \<open>path.join\<close>, the \<open>glob\<close> library (given the pattern and the \<open>ignore\<close>
  option, it yields the matching relative paths or throws) and the shell.
\<close>

record platform =
  cwd :: string
  path_join :: "string \<Rightarrow> string \<Rightarrow> string"
  glob :: "file_system \<Rightarrow> string \<Rightarrow> string \<Rightarrow> string + string list"
  exec :: "file_system \<Rightarrow> string \<Rightarrow> exec_outcome"

text \<open>JavaScript truthiness of a value that is a string or \<open>null\<close>/\<open>undefined\<close>.\<close>

definition truthy :: "string option \<Rightarrow> bool" where
  "truthy v = (case v of None \<Rightarrow> False | Some s \<Rightarrow> s \<noteq> [])"

section \<open>The tools\<close>

text \<open>\<open>executeCommand\<close>: the result object \<open>{data, errorCode}\<close>. Error output with no
  standard output, and every rejection, give \<open>data = null\<close> and the text of the error.\<close>

record command_result =
  data :: "string option"
  errorCode :: "string option"

definition executeCommand :: "platform \<Rightarrow> file_system \<Rightarrow> string \<Rightarrow> command_result" where
  "executeCommand P fs command =
     (case exec P fs command of
        Resolved stdout stderr \<Rightarrow>
          if stderr \<noteq> [] \<and> stdout = [] then \<lparr>data = None, errorCode = Some stderr\<rparr>
          else \<lparr>data = Some stdout, errorCode = None\<rparr>
      | Rejected message stdout stderr \<Rightarrow> \<lparr>data = None, errorCode = Some message\<rparr>)"

text \<open>\<open>findFiles\<close>: the matches of the glob library, each joined to the working directory,
  as JSON text; an exception of the library becomes an error text.\<close>

definition findFiles :: "platform \<Rightarrow> file_system \<Rightarrow> string \<Rightarrow> string" where
  "findFiles P fs pattern =
     (case glob P fs pattern ''node_modules/**'' of
        Inl message \<Rightarrow> ''Error finding files: '' @ message
      | Inr matches \<Rightarrow> stringify_strings (map (path_join P (cwd P)) matches))"

text \<open>The command line that \<open>searchFileContents\<close> builds.\<close>

definition grep_command :: "string \<Rightarrow> string \<Rightarrow> string option \<Rightarrow> bool option \<Rightarrow> string" where
  "grep_command pattern searchPath globPattern caseInsensitive =
     (let flags = ''-rn'' @ (if caseInsensitive = Some True then ''i'' else []);
          includeFlag = (if truthy globPattern
                         then ''--include='' @ [CHR 0x22] @ the globPattern @ [CHR 0x22]
                         else [])
      in ''grep '' @ flags @ '' '' @ includeFlag @ '' '' @ [CHR 0x22] @ pattern @ [CHR 0x22]
           @ '' '' @ [CHR 0x22] @ searchPath @ [CHR 0x22])"

text \<open>\<open>searchFileContents\<close> has no \<open>try\<close> of its own: when \<open>data\<close> is \<open>null\<close> and the
  guard does not fire, \<open>data.trim()\<close> throws a \<open>TypeError\<close> (the \<open>Inl\<close> result).\<close>

definition searchFileContents ::
  "platform \<Rightarrow> file_system \<Rightarrow> string \<Rightarrow> string option \<Rightarrow> string option \<Rightarrow> bool option
     \<Rightarrow> string + string" where
  "searchFileContents P fs pattern searchPath globPattern caseInsensitive =
     (let r = executeCommand P fs
                (grep_command pattern (case searchPath of None \<Rightarrow> ''.'' | Some p \<Rightarrow> p)
                   globPattern caseInsensitive)
      in if truthy (errorCode r) \<and> \<not> truthy (data r) then Inr ''No matches found.''
         else (case data r of
                 None \<Rightarrow>
                   Inl (''Cannot read properties of null (reading '' @ [CHR 0x27] @ ''trim''
                        @ [CHR 0x27] @ '')'')
               | Some d \<Rightarrow> Inr (trim_js d)))"

text \<open>\<open>readFile\<close>: the lines of the file (the content split at newlines), the slice of
  them from \<open>offset - 1\<close> to \<open>offset - 1 + limit\<close>, each selected line behind its number,
  joined by newlines. The defaults apply to an absent argument. Numbers are integers of
  any size; JavaScript prints them in decimal up to \<open>10^21\<close>.\<close>

definition numbered :: "int \<Rightarrow> string list \<Rightarrow> string list" where
  "numbered offset selected =
     map (\<lambda>(index, line). numberToString (offset + int index) @ '' | '' @ line)
       (enumerate 0 selected)"

definition readFile :: "file_system \<Rightarrow> string \<Rightarrow> int option \<Rightarrow> int option \<Rightarrow> string" where
  "readFile fs filePath offset_arg limit_arg =
     (let offset = (case offset_arg of None \<Rightarrow> 1 | Some v \<Rightarrow> v);
          limit = (case limit_arg of None \<Rightarrow> 2000 | Some v \<Rightarrow> v)
      in case files fs filePath of
           None \<Rightarrow> ''Error reading file: '' @ read_error fs filePath
         | Some content \<Rightarrow>
             join_js
               (numbered offset
                  (slice_js (split_js content [CHR 0x0A]) (offset - 1) (offset - 1 + limit)))
               [CHR 0x0A])"

text \<open>\<open>createFile\<close>: the parent directories are created, then the file is written; either
  step may reject, and the error becomes the returned text.\<close>

definition createFile :: "file_system \<Rightarrow> string \<Rightarrow> string \<Rightarrow> string \<times> file_system" where
  "createFile fs filePath content =
     (case mkdir_error fs filePath of
        Some message \<Rightarrow> (''Error creating file: '' @ message, fs)
      | None \<Rightarrow>
          (case write_error fs filePath of
             Some message \<Rightarrow> (''Error creating file: '' @ message, fs)
           | None \<Rightarrow>
               (''File created successfully at '' @ filePath,
                fs\<lparr>files := (files fs)(filePath \<mapsto> content)\<rparr>)))"

text \<open>\<open>editFile\<close>: the read, the test \<open>content.includes(oldString)\<close>, the replacement
  (\<open>split\<close> and \<open>join\<close> when \<open>replaceAll\<close> is truthy, \<open>replace\<close> otherwise) and the write.
  A failed read or write becomes the returned text.\<close>

definition editFile ::
  "file_system \<Rightarrow> string \<Rightarrow> string \<Rightarrow> string \<Rightarrow> bool option \<Rightarrow> string \<times> file_system" where
  "editFile fs filePath oldString newString replaceAll =
     (case files fs filePath of
        None \<Rightarrow> (''Error editing file: '' @ read_error fs filePath, fs)
      | Some content \<Rightarrow>
          if \<not> includes_js content oldString then
            (''Error: oldString not found in file. Please ensure exact matching including indentation.'',
             fs)
          else
            (let newContent =
                   (if replaceAll = Some True
                    then join_js (split_js content oldString) newString
                    else replace_js content oldString newString)
             in case write_error fs filePath of
                  Some message \<Rightarrow> (''Error editing file: '' @ message, fs)
                | None \<Rightarrow>
                    (''File edited successfully at '' @ filePath,
                     fs\<lparr>files := (files fs)(filePath \<mapsto> newContent)\<rparr>)))"

section \<open>Messages, tool calls and the tool registry\<close>

text \<open>A tool call as the model backend delivers it: \<open>toolCall.function.name\<close> and
  \<open>toolCall.function.arguments\<close>, an object of primitive JSON values.\<close>

datatype json = JNull | JBool bool | JNum int | JStr string

type_synonym arguments = "string \<rightharpoonup> json"

record tool_call =
  function_name :: string
  function_arguments :: arguments

datatype role = System | User | Assistant | Tool

text \<open>A message of the history. The optional fields are \<open>None\<close> where the source leaves
  them out or sets them to \<open>undefined\<close>.\<close>

record message =
  role :: role
  content :: string
  tool_calls :: "tool_call list option"
  name :: "string option"

text \<open>One part of a streamed reply: \<open>part.message\<close> carries a text delta and, possibly,
  a batch of tool calls.\<close>

record part =
  message :: message

text \<open>The descriptors of the \<open>tools\<close> constant, sent with every request of the
  tool-calling loop.\<close>

record parameter =
  parameter_name :: string
  parameter_type :: string
  parameter_description :: string

record tool =
  tool_name :: string
  tool_description :: string
  required :: "string list"
  properties :: "parameter list"

definition tools :: "tool list" where
  "tools =
    [\<lparr>tool_name = ''findFiles'',
      tool_description = ''Find files in the project matching a pattern'',
      required = [''pattern''],
      properties =
        [\<lparr>parameter_name = ''pattern'', parameter_type = ''string'',
          parameter_description =
            ''The glob pattern to search for (e.g. '' @ [CHR 0x22] @ ''**/*.js'' @ [CHR 0x22] @ '')''\<rparr>]\<rparr>,
     \<lparr>tool_name = ''searchFileContents'',
      tool_description = ''Search for text patterns within files'',
      required = [''pattern''],
      properties =
        [\<lparr>parameter_name = ''pattern'', parameter_type = ''string'',
          parameter_description = ''The text or regex pattern to search for''\<rparr>,
         \<lparr>parameter_name = ''searchPath'', parameter_type = ''string'',
          parameter_description =
            ''The directory to search in (default: '' @ [CHR 0x22] @ ''.'' @ [CHR 0x22] @ '')''\<rparr>,
         \<lparr>parameter_name = ''globPattern'', parameter_type = ''string'',
          parameter_description =
            ''File pattern to include (e.g. '' @ [CHR 0x22] @ ''*.js'' @ [CHR 0x22] @ '')''\<rparr>,
         \<lparr>parameter_name = ''caseInsensitive'', parameter_type = ''boolean'',
          parameter_description = ''Whether to ignore case''\<rparr>]\<rparr>,
     \<lparr>tool_name = ''readFile'',
      tool_description = ''Read the contents of a file'',
      required = [''filePath''],
      properties =
        [\<lparr>parameter_name = ''filePath'', parameter_type = ''string'',
          parameter_description = ''The path to the file''\<rparr>,
         \<lparr>parameter_name = ''offset'', parameter_type = ''integer'',
          parameter_description = ''Line number to start reading from (default: 1)''\<rparr>,
         \<lparr>parameter_name = ''limit'', parameter_type = ''integer'',
          parameter_description = ''Number of lines to read (default: 2000)''\<rparr>]\<rparr>,
     \<lparr>tool_name = ''createFile'',
      tool_description = ''Create a new file with content'',
      required = [''filePath'', ''content''],
      properties =
        [\<lparr>parameter_name = ''filePath'', parameter_type = ''string'',
          parameter_description = ''The path for the new file''\<rparr>,
         \<lparr>parameter_name = ''content'', parameter_type = ''string'',
          parameter_description = ''The content to write to the file''\<rparr>]\<rparr>,
     \<lparr>tool_name = ''editFile'',
      tool_description = ''Edit a file by replacing text'',
      required = [''filePath'', ''oldString'', ''newString''],
      properties =
        [\<lparr>parameter_name = ''filePath'', parameter_type = ''string'',
          parameter_description = ''The path to the file''\<rparr>,
         \<lparr>parameter_name = ''oldString'', parameter_type = ''string'',
          parameter_description = ''The existing text to be replaced''\<rparr>,
         \<lparr>parameter_name = ''newString'', parameter_type = ''string'',
          parameter_description = ''The new text to replace with''\<rparr>,
         \<lparr>parameter_name = ''replaceAll'', parameter_type = ''boolean'',
          parameter_description = ''Whether to replace all occurrences''\<rparr>]\<rparr>]"

text \<open>
  The JavaScript runtime around the registry. A tool destructures its argument object;
  what it does with arguments that do not fit its declared schema (a required field
  missing, a field of another type) is left open: \<open>off_schema\<close>. The registry is a plain
  object, so a lookup also finds the members it inherits from \<open>Object.prototype\<close>;
  \<open>inherited_call\<close> is what calling such a member yields, for the members not modelled
  below.
\<close>

record runtime =
  off_schema :: "string \<Rightarrow> arguments \<Rightarrow> file_system \<Rightarrow> (string + string) \<times> file_system"
  inherited_call :: "string \<Rightarrow> arguments \<Rightarrow> string + string"

text \<open>Reading the fields of the argument object: \<open>None\<close> when the field does not fit
  the schema; for an optional field, \<open>Some None\<close> when it is absent.\<close>

definition required_string :: "arguments \<Rightarrow> string \<Rightarrow> string option" where
  "required_string args k = (case args k of Some (JStr s) \<Rightarrow> Some s | _ \<Rightarrow> None)"

definition optional_string :: "arguments \<Rightarrow> string \<Rightarrow> string option option" where
  "optional_string args k =
     (case args k of None \<Rightarrow> Some None | Some (JStr s) \<Rightarrow> Some (Some s) | _ \<Rightarrow> None)"

definition optional_boolean :: "arguments \<Rightarrow> string \<Rightarrow> bool option option" where
  "optional_boolean args k =
     (case args k of None \<Rightarrow> Some None | Some (JBool b) \<Rightarrow> Some (Some b) | _ \<Rightarrow> None)"

definition optional_integer :: "arguments \<Rightarrow> string \<Rightarrow> int option option" where
  "optional_integer args k =
     (case args k of None \<Rightarrow> Some None | Some (JNum i) \<Rightarrow> Some (Some i) | _ \<Rightarrow> None)"

text \<open>A tool as the registry holds it: called with the argument object, it returns a
  text (\<open>Inr\<close>) or throws (\<open>Inl\<close>, the message of the error), and may change the files.\<close>

type_synonym tool_impl =
  "platform \<Rightarrow> runtime \<Rightarrow> arguments \<Rightarrow> file_system \<Rightarrow> (string + string) \<times> file_system"

definition findFiles_tool :: tool_impl where
  "findFiles_tool P R args fs =
     (case required_string args ''pattern'' of
        Some pattern \<Rightarrow> (Inr (findFiles P fs pattern), fs)
      | None \<Rightarrow> off_schema R ''findFiles'' args fs)"

definition searchFileContents_tool :: tool_impl where
  "searchFileContents_tool P R args fs =
     (case (required_string args ''pattern'', optional_string args ''searchPath'',
            optional_string args ''globPattern'', optional_boolean args ''caseInsensitive'') of
        (Some pattern, Some searchPath, Some globPattern, Some caseInsensitive) \<Rightarrow>
          (searchFileContents P fs pattern searchPath globPattern caseInsensitive, fs)
      | _ \<Rightarrow> off_schema R ''searchFileContents'' args fs)"

definition readFile_tool :: tool_impl where
  "readFile_tool P R args fs =
     (case (required_string args ''filePath'', optional_integer args ''offset'',
            optional_integer args ''limit'') of
        (Some filePath, Some offset, Some limit) \<Rightarrow> (Inr (readFile fs filePath offset limit), fs)
      | _ \<Rightarrow> off_schema R ''readFile'' args fs)"

definition createFile_tool :: tool_impl where
  "createFile_tool P R args fs =
     (case (required_string args ''filePath'', required_string args ''content'') of
        (Some filePath, Some text) \<Rightarrow>
          (case createFile fs filePath text of (result, fs') \<Rightarrow> (Inr result, fs'))
      | _ \<Rightarrow> off_schema R ''createFile'' args fs)"

definition editFile_tool :: tool_impl where
  "editFile_tool P R args fs =
     (case (required_string args ''filePath'', required_string args ''oldString'',
            required_string args ''newString'', optional_boolean args ''replaceAll'') of
        (Some filePath, Some oldString, Some newString, Some replaceAll) \<Rightarrow>
          (case editFile fs filePath oldString newString replaceAll of
             (result, fs') \<Rightarrow> (Inr result, fs'))
      | _ \<Rightarrow> off_schema R ''editFile'' args fs)"

text \<open>The own properties of the \<open>availableTools\<close> object: the five registered tools.\<close>

definition availableTools :: "string \<Rightarrow> tool_impl option" where
  "availableTools n =
     (if n = ''findFiles'' then Some findFiles_tool
      else if n = ''searchFileContents'' then Some searchFileContents_tool
      else if n = ''readFile'' then Some readFile_tool
      else if n = ''createFile'' then Some createFile_tool
      else if n = ''editFile'' then Some editFile_tool
      else None)"

text \<open>The property names every plain object inherits from \<open>Object.prototype\<close>.\<close>

definition object_prototype :: "string list" where
  "object_prototype =
     [''constructor'', ''__defineGetter__'', ''__defineSetter__'', ''hasOwnProperty'',
      ''__lookupGetter__'', ''__lookupSetter__'', ''isPrototypeOf'', ''propertyIsEnumerable'',
      ''toString'', ''valueOf'', ''__proto__'', ''toLocaleString'']"

text \<open>Calling an inherited member as \<open>tool(functionArgs)\<close>, that is with no receiver:
  \<open>Object.prototype.toString\<close> returns the tag of \<open>undefined\<close>, and \<open>__proto__\<close> is an object
  and not a function, so the call throws.\<close>

definition inherited :: "string \<Rightarrow> tool_impl" where
  "inherited n P R args fs =
     (if n = ''toString'' then (Inr ''[object Undefined]'', fs)
      else if n = ''__proto__'' then (Inl ''tool is not a function'', fs)
      else (inherited_call R n args, fs))"

text \<open>The lookup \<open>availableTools[functionName]\<close>: an own property, else an inherited one,
  else \<open>undefined\<close>.\<close>

definition lookup_tool :: "string \<Rightarrow> tool_impl option" where
  "lookup_tool n =
     (case availableTools n of
        Some t \<Rightarrow> Some t
      | None \<Rightarrow> if n \<in> set object_prototype then Some (inherited n) else None)"

section \<open>The model backend, the terminal and the conversation state\<close>

text \<open>The request of one model turn.\<close>

record chat_request =
  request_model :: string
  request_messages :: "message list"
  request_stream :: bool
  request_tools :: "tool list option"

text \<open>The three requests the programs send: the tool-calling loop streams and sends the
  tool descriptors; the non-streaming variant and the streaming variant without tools
  send the model name and the history only.\<close>

definition agent_request :: "message list \<Rightarrow> chat_request" where
  "agent_request msgs =
     \<lparr>request_model = ''ministral-3:8b'', request_messages = msgs,
      request_stream = True, request_tools = Some tools\<rparr>"

definition callChat_request :: "message list \<Rightarrow> chat_request" where
  "callChat_request msgs =
     \<lparr>request_model = ''ministral-3:8b'', request_messages = msgs,
      request_stream = False, request_tools = None\<rparr>"

definition stream_request :: "message list \<Rightarrow> chat_request" where
  "stream_request msgs =
     \<lparr>request_model = ''ministral-3:8b'', request_messages = msgs,
      request_stream = True, request_tools = None\<rparr>"

text \<open>A streamed reply delivers its parts and ends, or fails after some parts with an
  error that the consumer sees as a thrown exception.\<close>

datatype stream_outcome = Completed "part list" | Broken "part list" string

text \<open>The reply to the one-shot request of the non-streaming variant: the call rejects,
  or answers with a non-success status and its text, or answers with one message.\<close>

datatype http_outcome = Rejected_fetch string | Bad_status string | Ok_reply message

record backend =
  ollama_chat :: "chat_request \<Rightarrow> stream_outcome"
  fetch_chat :: "chat_request \<Rightarrow> http_outcome"

text \<open>What the program writes to the terminal, in order: the two prompts, raw writes to
  the standard output, the dimmed trace of a tool call and the one-line reply.\<close>

datatype terminal_output =
    Prompt_You
  | Prompt_Agent
  | Write string
  | Trace_tool_call string arguments
  | Log_Agent string

record state =
  messages :: "message list"
  fs :: file_system
  terminal :: "terminal_output list"

definition system_prompt :: string where
  "system_prompt = concat (map (\<lambda>l. l @ [CHR 0x0A])
    ['''',
     ''      Core Identity: You are an interactive CLI tool that helps with software engineering tasks.'',
     '''',
     ''      Key Guidelines:'',
     ''      - Concise communication: Short, direct responses formatted in GitHub-flavored markdown'',
     ''      - Professional objectivity: Prioritize technical accuracy over validation; correct mistakes directly'',
     ''      - Minimal emoji use: Only when explicitly requested'',
     ''      - Tool preference: Use specialized tools over bash commands for file operations'',
     '''',
     ''      Coding Approach:'',
     ''      - Always read code before modifying it'',
     ''      - Avoid over-engineering - only make requested changes'',
     ''      - Don'' @ [CHR 0x27] @ ''t add unnecessary abstractions, comments, or features'',
     ''      - Watch for security vulnerabilities (XSS, SQL injection, etc.)'',
     ''      - Delete unused code completely rather than commenting it out'']) @ ''    ''"

text \<open>The history the tool-calling program starts with.\<close>

definition initial_messages :: "message list" where
  "initial_messages =
     [\<lparr>role = System, content = system_prompt, tool_calls = None, name = None\<rparr>]"

section \<open>The streaming aggregator\<close>

text \<open>One pass of the loop over the parts of a reply: the delta is appended to the text,
  and a batch that is present (any array, an empty one too, is truthy) replaces the batch
  retained so far.\<close>

definition consume :: "string \<times> tool_call list \<Rightarrow> part \<Rightarrow> string \<times> tool_call list" where
  "consume acc p =
     (case acc of (fullResponse, toolCalls) \<Rightarrow>
        (fullResponse @ content (message p),
         (case tool_calls (message p) of Some batch \<Rightarrow> batch | None \<Rightarrow> toolCalls)))"

definition aggregate :: "part list \<Rightarrow> string \<times> tool_call list" where
  "aggregate parts = foldl consume ([], []) parts"

definition written :: "part list \<Rightarrow> terminal_output list" where
  "written parts = map (\<lambda>p. Write (content (message p))) parts"

text \<open>\<open>callAgent\<close>: one model turn. It returns the retained batch, having appended the
  assistant message to the history; a failure of the backend is thrown (\<open>Inl\<close>) and the
  history stays as it was.\<close>

definition callAgent :: "backend \<Rightarrow> state \<Rightarrow> (string + tool_call list) \<times> state" where
  "callAgent B st =
     (let st1 = st\<lparr>terminal := terminal st @ [Prompt_Agent]\<rparr> in
      case ollama_chat B
             (agent_request (messages st1)) of
        Broken parts err \<Rightarrow>
          (Inl err, st1\<lparr>terminal := terminal st1 @ written parts\<rparr>)
      | Completed parts \<Rightarrow>
          (case aggregate parts of (fullResponse, toolCalls) \<Rightarrow>
             (Inr toolCalls,
              st1\<lparr>terminal := terminal st1 @ written parts @ [Write [CHR 0x0A]],
                  messages := messages st1 @
                    [\<lparr>role = Assistant, content = fullResponse,
                      tool_calls = (if toolCalls \<noteq> [] then Some toolCalls else None),
                      name = None\<rparr>]\<rparr>)))"

section \<open>Tool execution and the conversation loop\<close>

text \<open>\<open>executeTool\<close>: the trace is printed, the tool is looked up by name and called
  with the arguments of the call. A missing tool gives an error text; an exception of the
  tool is caught and becomes an error text as well.\<close>

definition executeTool :: "platform \<Rightarrow> runtime \<Rightarrow> tool_call \<Rightarrow> state \<Rightarrow> string \<times> state" where
  "executeTool P R toolCall st =
     (let functionName = function_name toolCall;
          functionArgs = function_arguments toolCall;
          st1 = st\<lparr>terminal := terminal st @ [Trace_tool_call functionName functionArgs]\<rparr>
      in case lookup_tool functionName of
           None \<Rightarrow> (''Error: Tool '' @ functionName @ '' not found.'', st1)
         | Some tool \<Rightarrow>
             (case tool P R functionArgs (fs st1) of
                (Inr result, fs') \<Rightarrow> (result, st1\<lparr>fs := fs'\<rparr>)
              | (Inl err, fs') \<Rightarrow>
                  (''Error executing '' @ functionName @ '': '' @ err, st1\<lparr>fs := fs'\<rparr>)))"

text \<open>The \<open>for\<close> loop over the batch: each call is executed and its result appended as a
  tool message, before the next call starts.\<close>

fun run_tool_calls :: "platform \<Rightarrow> runtime \<Rightarrow> tool_call list \<Rightarrow> state \<Rightarrow> state" where
  "run_tool_calls P R [] st = st"
| "run_tool_calls P R (toolCall # rest) st =
     (case executeTool P R toolCall st of
        (result, st1) \<Rightarrow>
          run_tool_calls P R rest
            (st1\<lparr>messages := messages st1 @
                   [\<lparr>role = Tool, content = result, tool_calls = None,
                     name = Some (function_name toolCall)\<rparr>]\<rparr>))"

text \<open>
  Where a run of the program stands: waiting for the next line of the user, stopped by
  an exception that nothing catches, or still inside the inner loop when the given
  number of model turns has been used up (the inner loop has no bound of its own).
\<close>

datatype status = AwaitingUser | Crashed string | ModelTurn

text \<open>The inner \<open>while (true)\<close> loop, run for at most \<open>turns\<close> model turns.\<close>

fun inner_loop :: "nat \<Rightarrow> platform \<Rightarrow> runtime \<Rightarrow> backend \<Rightarrow> state \<Rightarrow> status \<times> state" where
  "inner_loop 0 P R B st = (ModelTurn, st)"
| "inner_loop (Suc turns) P R B st =
     (case callAgent B st of
        (Inl err, st1) \<Rightarrow> (Crashed err, st1)
      | (Inr toolCalls, st1) \<Rightarrow>
          if toolCalls = [] then (AwaitingUser, st1)
          else inner_loop turns P R B (run_tool_calls P R toolCalls st1))"

text \<open>The outer loop of \<open>chat\<close>, fed the lines the user types; each line may use up to
  \<open>turns\<close> model turns. When the lines are used up the program has printed its prompt and
  waits.\<close>

fun chat :: "nat \<Rightarrow> platform \<Rightarrow> runtime \<Rightarrow> backend \<Rightarrow> string list \<Rightarrow> state \<Rightarrow> status \<times> state" where
  "chat turns P R B [] st = (AwaitingUser, st\<lparr>terminal := terminal st @ [Prompt_You]\<rparr>)"
| "chat turns P R B (userInput # rest) st =
     (case inner_loop turns P R B
             (st\<lparr>terminal := terminal st @ [Prompt_You],
                 messages := messages st @
                   [\<lparr>role = User, content = userInput, tool_calls = None, name = None\<rparr>]\<rparr>) of
        (AwaitingUser, st1) \<Rightarrow> chat turns P R B rest st1
      | (other, st1) \<Rightarrow> (other, st1))"

section \<open>The variants without tools\<close>

text \<open>\<open>callChat\<close> of the non-streaming variant: one request, with no tool descriptors;
  the text of the reply is returned, and a failed call is thrown (\<open>Inl\<close>).\<close>

definition callChat :: "backend \<Rightarrow> message list \<Rightarrow> string + string" where
  "callChat B msgs =
     (case fetch_chat B
             (callChat_request msgs) of
        Rejected_fetch err \<Rightarrow> Inl err
      | Bad_status statusText \<Rightarrow> Inl (''Ollama API Error: '' @ statusText)
      | Ok_reply m \<Rightarrow> Inr (content m))"

text \<open>\<open>chat\<close> of the non-streaming variant.\<close>

fun chat_no_stream :: "backend \<Rightarrow> string list \<Rightarrow> state \<Rightarrow> status \<times> state" where
  "chat_no_stream B [] st = (AwaitingUser, st\<lparr>terminal := terminal st @ [Prompt_You]\<rparr>)"
| "chat_no_stream B (userInput # rest) st =
     (let st1 = st\<lparr>terminal := terminal st @ [Prompt_You],
                   messages := messages st @
                     [\<lparr>role = User, content = userInput, tool_calls = None, name = None\<rparr>]\<rparr>
      in case callChat B (messages st1) of
           Inl err \<Rightarrow> (Crashed err, st1)
         | Inr response \<Rightarrow>
             chat_no_stream B rest
               (st1\<lparr>messages := messages st1 @
                      [\<lparr>role = Assistant, content = response, tool_calls = None, name = None\<rparr>],
                    terminal := terminal st1 @ [Log_Agent response]\<rparr>))"

text \<open>\<open>chat\<close> of the streaming variant that has no tools: the deltas are written as they
  arrive and their concatenation becomes the assistant message.\<close>

fun chat_stream :: "backend \<Rightarrow> string list \<Rightarrow> state \<Rightarrow> status \<times> state" where
  "chat_stream B [] st = (AwaitingUser, st\<lparr>terminal := terminal st @ [Prompt_You]\<rparr>)"
| "chat_stream B (userInput # rest) st =
     (let st1 = st\<lparr>terminal := terminal st @ [Prompt_You, Prompt_Agent],
                   messages := messages st @
                     [\<lparr>role = User, content = userInput, tool_calls = None, name = None\<rparr>]\<rparr>
      in case ollama_chat B
                (stream_request (messages st1)) of
           Broken parts err \<Rightarrow> (Crashed err, st1\<lparr>terminal := terminal st1 @ written parts\<rparr>)
         | Completed parts \<Rightarrow>
             chat_stream B rest
               (st1\<lparr>terminal := terminal st1 @ written parts @ [Write [CHR 0x0A]],
                    messages := messages st1 @
                      [\<lparr>role = Assistant, content = concat (map (\<lambda>p. content (message p)) parts),
                        tool_calls = None, name = None\<rparr>]\<rparr>))"

section \<open>A model of the glob library\<close>

text \<open>
  \<open>findFiles\<close> leaves the matching to the \<open>glob\<close> library. The model below is what the
  library (version 9 and later, on a POSIX platform, case sensitive, with its default
  options and the \<open>ignore\<close> option \<open>node_modules/**\<close>) computes for plain patterns: patterns
  of at most 65536 characters whose segments, separated by single slashes, are either the
  globstar \<open>**\<close> or made of letters, digits, dots, underscores, hyphens and the wildcard
  \<open>*\<close>; the last segment is not a globstar. What the library does with any other pattern
  (braces, classes, question marks, negation, absolute paths, a trailing globstar) is left
  open: \<open>other\<close>.
\<close>

definition literal_char :: "char \<Rightarrow> bool" where
  "literal_char c =
     (c \<in> set ''abcdefghijklmnopqrstuvwxyzABCDEFGHIJKLMNOPQRSTUVWXYZ0123456789._-'')"

definition name_pattern :: "string \<Rightarrow> bool" where
  "name_pattern s =
     (s \<noteq> [] \<and> s \<noteq> ''.'' \<and> s \<noteq> ''..'' \<and>
      list_all (\<lambda>c. literal_char c \<or> c = CHR ''*'') s \<and> \<not> includes_js s ''**'')"

definition plain_pattern :: "string \<Rightarrow> bool" where
  "plain_pattern pattern =
     (length pattern \<le> 65536 \<and>
      list_all (\<lambda>s. s = ''**'' \<or> name_pattern s) (split_js pattern ''/'') \<and>
      last (split_js pattern ''/'') \<noteq> ''**'')"

text \<open>A segment of a pattern against the name of an entry: \<open>*\<close> stands for any run of
  characters, and a name that starts with a dot is matched only by a segment that starts
  with a dot.\<close>

fun match_name :: "string \<Rightarrow> string \<Rightarrow> bool" where
  "match_name [] s = (s = [])"
| "match_name (p # ps) [] = (p = CHR ''*'' \<and> match_name ps [])"
| "match_name (p # ps) (c # cs) =
     (if p = CHR ''*'' then match_name ps (c # cs) \<or> match_name (p # ps) cs
      else p = c \<and> match_name ps cs)"

definition hidden :: "string \<Rightarrow> bool" where
  "hidden s = (case s of [] \<Rightarrow> False | c # _ \<Rightarrow> c = CHR ''.'')"

definition match_segment :: "string \<Rightarrow> string \<Rightarrow> bool" where
  "match_segment p s = ((if hidden s then hidden p else True) \<and> match_name p s)"

text \<open>The segments of a pattern against the segments of a path: a globstar stands for
  any number of directories, none of which starts with a dot.\<close>

fun match_path :: "string list \<Rightarrow> string list \<Rightarrow> bool" where
  "match_path [] ns = (ns = [])"
| "match_path (p # ps) [] = (p = ''**'' \<and> match_path ps [])"
| "match_path (p # ps) (n # ns) =
     (if p = ''**'' then
        (if hidden n then match_path ps (n # ns)
         else match_path ps (n # ns) \<or> match_path (p # ps) ns)
      else match_segment p n \<and> match_path ps ns)"

text \<open>What the option \<open>ignore: "node_modules/**"\<close> removes: the pattern is matched against
  the path relative to the working directory, so it removes the directory \<open>node_modules\<close>
  of the working directory and everything below it, and nothing else.\<close>

definition ignored :: "string \<Rightarrow> bool" where
  "ignored p = (p = ''node_modules'' \<or> prefix ''node_modules/'' p)"

definition selected :: "string \<Rightarrow> string \<Rightarrow> bool" where
  "selected pattern p =
     (match_path (split_js pattern ''/'') (split_js p ''/'') \<and> \<not> ignored p)"

text \<open>The library on a working tree, given as the list of the relative paths of its
  files and directories, in the order in which the library reports them.\<close>

definition glob_js ::
  "(string list \<Rightarrow> string \<Rightarrow> string \<Rightarrow> string + string list)
     \<Rightarrow> string list \<Rightarrow> string \<Rightarrow> string \<Rightarrow> string + string list" where
  "glob_js other tree pattern ignore =
     (if plain_pattern pattern \<and> ignore = ''node_modules/**'' then
        Inr (filter (selected pattern) tree)
      else other tree pattern ignore)"

text \<open>The working tree that a file system shows under the working directory, among the
  paths of a given list: the files it holds and the directories above them.\<close>

definition working_tree :: "string list \<Rightarrow> file_system \<Rightarrow> string list" where
  "working_tree universe disk =
     filter (\<lambda>p. files disk p \<noteq> None \<or>
                 list_ex (\<lambda>q. files disk q \<noteq> None \<and> prefix (p @ ''/'') q) universe)
       universe"

section \<open>Notions of the specification\<close>

text \<open>The text deltas of the parts of a reply, concatenated in arrival order.\<close>

definition deltas :: "part list \<Rightarrow> string" where
  "deltas parts = concat (map (\<lambda>p. content (message p)) parts)"

text \<open>The tool-call batches that the parts of a reply carry, in arrival order; the last
  batch present; and the last batch that is not empty (the empty batch when there is none).\<close>

definition batches :: "part list \<Rightarrow> tool_call list list" where
  "batches parts = List.map_filter (\<lambda>p. tool_calls (message p)) parts"

definition last_batch :: "part list \<Rightarrow> tool_call list" where
  "last_batch parts = (if batches parts = [] then [] else last (batches parts))"

definition last_nonempty_batch :: "part list \<Rightarrow> tool_call list" where
  "last_nonempty_batch parts =
     (let bs = filter (\<lambda>b. b \<noteq> []) (batches parts) in if bs = [] then [] else last bs)"

text \<open>The three kinds of message the loops append.\<close>

definition user_message :: "string \<Rightarrow> message" where
  "user_message userInput =
     \<lparr>role = User, content = userInput, tool_calls = None, name = None\<rparr>"

definition assistant_message :: "string \<Rightarrow> message" where
  "assistant_message reply =
     \<lparr>role = Assistant, content = reply, tool_calls = None, name = None\<rparr>"

definition tool_message :: "tool_call \<Rightarrow> string \<Rightarrow> message" where
  "tool_message toolCall result =
     \<lparr>role = Tool, content = result, tool_calls = None,
      name = Some (function_name toolCall)\<rparr>"

text \<open>The calls an assistant message declares.\<close>

definition declared_calls :: "message \<Rightarrow> tool_call list" where
  "declared_calls m = (case tool_calls m of None \<Rightarrow> [] | Some batch \<Rightarrow> batch)"

text \<open>
  Reading a history from the front with the calls that still wait for their result:
  a tool message must answer the first waiting call, by name; any other message may only
  come when no call is waiting, and an assistant message makes its declared calls wait.
  The reading fails (\<open>None\<close>) on a history that breaks this, and returns the calls that
  are still waiting at the end otherwise. A history conforms when the reading succeeds
  with no call left waiting.
\<close>

fun answered :: "tool_call list \<Rightarrow> message list \<Rightarrow> tool_call list option" where
  "answered pending [] = Some pending"
| "answered pending (m # ms) =
     (if role m = Tool then
        (case pending of
           [] \<Rightarrow> None
         | toolCall # rest \<Rightarrow>
             if name m = Some (function_name toolCall) then answered rest ms else None)
      else if pending \<noteq> [] then None
      else answered (if role m = Assistant then declared_calls m else []) ms)"

definition conforms :: "message list \<Rightarrow> bool" where
  "conforms history = (answered [] history = Some [])"

text \<open>Replacing every occurrence of a non-empty text \<open>R\<close> in \<open>S\<close> by \<open>T\<close>, taken as it
  is: the occurrences are found from left to right, each search starting after the
  previous occurrence.\<close>

function replace_every :: "string \<Rightarrow> string \<Rightarrow> string \<Rightarrow> string" where
  "replace_every S R T =
     (if R = [] then S
      else (case indexOf S R of
              None \<Rightarrow> S
            | Some j \<Rightarrow> take j S @ T @ replace_every (drop (j + length R) S) R T))"
  by pat_completeness auto
termination
proof (relation "measure (\<lambda>(S, R, T). length S)")
  show "wf (measure (\<lambda>(S, R, T). length S))" by simp
next
  fix S R T :: string and j :: nat
  assume "R \<noteq> []" and "indexOf S R = Some j"
  then have "j + length R \<le> length S" and "0 < length R"
    by (simp_all add: indexOf_bound)
  then have "length S - (j + length R) < length S" by arith
  then show "((drop (j + length R) S, R, T), (S, R, T)) \<in> measure (\<lambda>(S, R, T). length S)"
    by simp
qed

declare replace_every.simps [simp del]

text \<open>A line of the form \<open>path:number:text\<close>: at some colon after a non-empty path, a
  decimal number and a second colon follow.\<close>

definition is_digit :: "char \<Rightarrow> bool" where
  "is_digit c = (c \<in> set ''0123456789'')"

definition line_number_then_colon :: "string \<Rightarrow> bool" where
  "line_number_then_colon s =
     (takeWhile is_digit s \<noteq> [] \<and>
      (case dropWhile is_digit s of [] \<Rightarrow> False | c # _ \<Rightarrow> c = CHR '':''))"

definition path_line_prefixed :: "string \<Rightarrow> bool" where
  "path_line_prefixed l =
     list_ex (\<lambda>i. l ! i = CHR '':'' \<and> line_number_then_colon (drop (Suc i) l))
       [1..<length l]"

subsection \<open>Reading a JSON array of strings\<close>

text \<open>
  A decoder for the JSON text of an array of strings, written with no white space, as
  \<open>JSON.stringify\<close> writes it. It serves to state what the text returned by \<open>findFiles\<close>
  denotes.
\<close>

definition hexValue :: "char \<Rightarrow> nat option" where
  "hexValue c =
     (if c \<in> set ''0123456789'' then Some (of_char c - 48)
      else if c \<in> set ''abcdef'' then Some (of_char c - 87)
      else if c \<in> set ''ABCDEF'' then Some (of_char c - 55)
      else None)"

definition unescape :: "char \<Rightarrow> char option" where
  "unescape e =
     (if e = CHR ''b'' then Some (CHR 0x08)
      else if e = CHR ''t'' then Some (CHR 0x09)
      else if e = CHR ''n'' then Some (CHR 0x0A)
      else if e = CHR ''f'' then Some (CHR 0x0C)
      else if e = CHR ''r'' then Some (CHR 0x0D)
      else if e = CHR 0x22 \<or> e = CHR 0x5C \<or> e = CHR ''/'' then Some e
      else None)"

text \<open>The code unit that four hexadecimal digits name, when it is below 256.\<close>

definition code_unit :: "char \<Rightarrow> char \<Rightarrow> char \<Rightarrow> char \<Rightarrow> char option" where
  "code_unit a b c d =
     (case (hexValue a, hexValue b, hexValue c, hexValue d) of
        (Some h3, Some h2, Some h1, Some h0) \<Rightarrow>
          if h3 = 0 \<and> h2 = 0 then Some (char_of (16 * h1 + h0)) else None
      | _ \<Rightarrow> None)"

text \<open>The characters of a JSON string after its opening quote, up to the closing quote,
  with the text that follows the closing quote.\<close>

fun parse_chars :: "string \<Rightarrow> (string \<times> string) option" where
  "parse_chars [] = None"
| "parse_chars (c # cs) =
     (if c = CHR 0x22 then Some ([], cs)
      else if c = CHR 0x5C then
        (case cs of
           [] \<Rightarrow> None
         | e # cs1 \<Rightarrow>
             if e = CHR ''u'' then
               (case cs1 of
                  a # b # c # d # cs2 \<Rightarrow>
                    (case code_unit a b c d of
                       None \<Rightarrow> None
                     | Some u \<Rightarrow> map_option (apfst ((#) u)) (parse_chars cs2))
                | _ \<Rightarrow> None)
             else
               (case unescape e of
                  None \<Rightarrow> None
                | Some u \<Rightarrow> map_option (apfst ((#) u)) (parse_chars cs1)))
      else if of_char c < (32 :: nat) then None
      else map_option (apfst ((#) c)) (parse_chars cs))"

lemma parse_chars_shorter: "parse_chars cs = Some (x, rest) \<Longrightarrow> length rest < length cs"
proof (induction cs arbitrary: x rest rule: parse_chars.induct)
  case 1
  then show ?case by simp
next
  case (2 c cs)
  show ?case
  proof (cases "c = CHR 0x22")
    case True
    with "2.prems" show ?thesis by simp
  next
    case quote: False
    show ?thesis
    proof (cases "c = CHR 0x5C")
      case False
      with quote "2.prems" obtain y where "parse_chars cs = Some (y, rest)"
        by (auto split: if_splits)
      with "2.IH"(3) [OF quote False] "2.prems" quote False show ?thesis
        by (fastforce split: if_splits)
    next
      case True
      with quote "2.prems" obtain e cs1 where cs: "cs = e # cs1"
        by (cases cs) auto
      show ?thesis
      proof (cases "e = CHR ''u''")
        case u: True
        with quote True cs "2.prems" obtain a b c' d cs2 v y where
          p: "cs1 = a # b # c' # d # cs2" "code_unit a b c' d = Some v"
             "parse_chars cs2 = Some (y, rest)"
          by (auto split: list.splits option.splits)
        from "2.IH"(1) [OF quote True cs u _ _ _ _ p(2) p(3)] p(1)
        have "length rest < length cs2" by simp
        with cs p(1) show ?thesis by simp
      next
        case u: False
        with quote True cs "2.prems" obtain v y where
          p: "unescape e = Some v" "parse_chars cs1 = Some (y, rest)"
          by (auto split: option.splits)
        from "2.IH"(2) [OF quote True cs u p(1) p(2)]
        have "length rest < length cs1" .
        with cs show ?thesis by simp
      qed
    qed
  qed
qed

text \<open>The elements of a non-empty array, after its opening bracket.\<close>

function parse_elements :: "string \<Rightarrow> string list option" where
  "parse_elements s =
     (case s of
        [] \<Rightarrow> None
      | q # cs \<Rightarrow>
          if q \<noteq> CHR 0x22 then None
          else (case parse_chars cs of
                  None \<Rightarrow> None
                | Some (x, rest) \<Rightarrow>
                    if rest = '']'' then Some [x]
                    else (case rest of
                            [] \<Rightarrow> None
                          | d # rest1 \<Rightarrow>
                              if d = CHR '','' then map_option ((#) x) (parse_elements rest1)
                              else None)))"
  by pat_completeness auto
termination
proof (relation "measure length")
  show "wf (measure length)" by simp
next
  fix s :: string and q cs p x rest d rest1
  assume "s = q # cs" and "parse_chars cs = Some p" and "(x, rest) = p" and "rest = d # rest1"
  then have "length rest < length cs" by (auto dest: parse_chars_shorter)
  with \<open>s = q # cs\<close> \<open>rest = d # rest1\<close> show "(rest1, s) \<in> measure length" by simp
qed

declare parse_elements.simps [simp del]

definition parse_string_array :: "string \<Rightarrow> string list option" where
  "parse_string_array s =
     (case s of
        [] \<Rightarrow> None
      | b # rest \<Rightarrow>
          if b \<noteq> CHR ''['' then None
          else if rest = '']'' then Some []
          else parse_elements rest)"

section \<open>Example inputs\<close>

text \<open>A small project: two files; the glob library as modelled, on the working tree that
  the file system shows among the paths of the project; a search that finds one line in
  the working directory, the same search in the file \<open>a.js\<close> alone and from the parent
  directory, where \<open>grep\<close> also meets a directory it may not read and exits with status 2,
  and searches that find nothing; and a model backend that asks for one tool call when
  the user asks for the tests and answers in two text parts otherwise.\<close>

definition example_disk :: file_system where
  "example_disk =
     \<lparr>files = [''a.js'' \<mapsto> ''a = 1;'',
               ''notes.txt'' \<mapsto>
                 join_js [''one'', ''two'', ''three'', ''four'', ''five'', ''six'',
                          ''seven'', ''eight'', ''nine'', ''ten''] [CHR 0x0A]],
      read_error = (\<lambda>p. ''ENOENT: no such file or directory, open '' @ p),
      write_error = Map.empty,
      mkdir_error = Map.empty\<rparr>"

definition project_paths :: "string list" where
  "project_paths =
     [''a'', ''a/x.test.js'', ''a.js'', ''b'', ''b/y.js'', ''notes.txt'',
      ''node_modules'', ''node_modules/dep'', ''node_modules/dep/z.test.js'',
      ''pkg'', ''pkg/node_modules'', ''pkg/node_modules/dep'',
      ''pkg/node_modules/dep/q.test.js'']"

text \<open>The glob library of the example platform is the model, run on the working tree
  that the file system shows among the paths of the project; the example asks it plain
  patterns only, and it refuses any other pattern.\<close>

definition example_glob :: "file_system \<Rightarrow> string \<Rightarrow> string \<Rightarrow> string + string list" where
  "example_glob disk pattern ignore =
     glob_js (\<lambda>tree pattern ignore. Inl ''pattern outside the modelled patterns'')
       (working_tree project_paths disk) pattern ignore"

definition example_platform :: platform where
  "example_platform =
     \<lparr>cwd = ''/home/user/project'',
      path_join = (\<lambda>dir file. dir @ ''/'' @ file),
      glob = example_glob,
      exec = (\<lambda>disk command.
                if command = grep_command ''a ='' ''.'' None None
                then Resolved (''./a.js:1:a = 1;'' @ [CHR 0x0A]) []
                else if command = grep_command ''a ='' ''a.js'' None None
                then Resolved (''1:a = 1;'' @ [CHR 0x0A]) []
                else if command = grep_command ''a ='' ''..'' None None
                then Rejected (''Command failed: '' @ command @ [CHR 0x0A]
                                 @ ''grep: ../private: Permission denied'' @ [CHR 0x0A])
                       (''../project/a.js:1:a = 1;'' @ [CHR 0x0A])
                       (''grep: ../private: Permission denied'' @ [CHR 0x0A])
                else Rejected (''Command failed: '' @ command @ [CHR 0x0A]) [] [])\<rparr>"

text \<open>Two more file systems: the tree of the specification's example, and a project
  with a dependency directory at the top and another one inside a package.\<close>

definition spec_tree_disk :: file_system where
  "spec_tree_disk =
     example_disk\<lparr>files := [''a/x.test.js'' \<mapsto> ''x();'', ''b/y.js'' \<mapsto> ''y = 2;'']\<rparr>"

definition monorepo_disk :: file_system where
  "monorepo_disk =
     example_disk\<lparr>files :=
       [''b/y.js'' \<mapsto> ''y = 2;'',
        ''node_modules/dep/z.test.js'' \<mapsto> ''z();'',
        ''pkg/node_modules/dep/q.test.js'' \<mapsto> ''q();'']\<rparr>"

definition example_runtime :: runtime where
  "example_runtime =
     \<lparr>off_schema = (\<lambda>n args disk. (Inl ''invalid arguments'', disk)),
      inherited_call = (\<lambda>n args. Inl ''Cannot convert undefined or null to object'')\<rparr>"

definition example_call :: tool_call where
  "example_call =
     \<lparr>function_name = ''findFiles'',
      function_arguments = [''pattern'' \<mapsto> JStr ''**/*.test.js'']\<rparr>"

definition example_reply :: message where
  "example_reply =
     \<lparr>role = Assistant, content = ''Searching.'', tool_calls = Some [example_call],
      name = None\<rparr>"

definition example_backend :: backend where
  "example_backend =
     \<lparr>ollama_chat = (\<lambda>request.
        if role (last (request_messages request)) = User \<and>
           content (last (request_messages request)) = ''find the tests''
        then Completed [\<lparr>message = example_reply\<rparr>]
        else Completed [\<lparr>message = assistant_message ''Done''\<rparr>,
                        \<lparr>message = assistant_message ''.''\<rparr>]),
      fetch_chat = (\<lambda>request.
        if role (last (request_messages request)) = User \<and>
           content (last (request_messages request)) = ''find the tests''
        then Ok_reply example_reply
        else Ok_reply (assistant_message ''Done.''))\<rparr>"

definition example_state :: state where
  "example_state = \<lparr>messages = initial_messages, fs = example_disk, terminal = []\<rparr>"

definition asked_state :: state where
  "asked_state =
     \<lparr>messages = initial_messages @ [user_message ''find the tests''], fs = example_disk,
      terminal = [Prompt_You]\<rparr>"

text \<open>A reply whose second part carries an empty batch after the first part carried a
  call, and a backend that gives this reply.\<close>

definition retracting_parts :: "part list" where
  "retracting_parts =
     [\<lparr>message = example_reply\<rparr>,
      \<lparr>message = \<lparr>role = Assistant, content = [], tool_calls = Some [], name = None\<rparr>\<rparr>]"

definition retracting_backend :: backend where
  "retracting_backend =
     \<lparr>ollama_chat = (\<lambda>request. Completed retracting_parts),
      fetch_chat = (\<lambda>request. Ok_reply example_reply)\<rparr>"

lemmas example_defs =
  example_state_def asked_state_def example_backend_def example_reply_def example_call_def
  example_runtime_def example_platform_def example_disk_def initial_messages_def
  user_message_def assistant_message_def agent_request_def callChat_request_def

section \<open>Auxiliary facts\<close>

subsection \<open>Occurrences of a substring\<close>

lemma indexOf_decomp:
  "indexOf S R = Some j \<Longrightarrow> S = take j S @ R @ drop (j + length R) S"
proof (induction S arbitrary: j)
  case Nil
  then show ?case by (simp split: if_splits)
next
  case (Cons c cs)
  show ?case
  proof (cases "prefix R (c # cs)")
    case True
    with Cons.prems have "j = 0" by simp
    from True obtain zs where "c # cs = R @ zs" by (auto simp: prefix_def)
    with \<open>j = 0\<close> show ?thesis by simp
  next
    case False
    with Cons.prems obtain k where k: "indexOf cs R = Some k" "j = Suc k" by auto
    from Cons.IH [OF k(1)] k(2) show ?thesis by simp
  qed
qed

lemma indexOf_occurrence: "indexOf (pre @ R @ post) R \<noteq> None"
proof (induction pre)
  case Nil
  have "indexOf zs R \<noteq> None" if "prefix R zs" for zs
    using that by (cases zs) auto
  then show ?case by simp
next
  case (Cons c pre)
  then show ?case by auto
qed

lemma includes_js_iff: "includes_js S R \<longleftrightarrow> (\<exists>pre post. S = pre @ R @ post)"
proof
  assume "includes_js S R"
  then obtain j where "indexOf S R = Some j" by (auto simp: includes_js_def)
  from indexOf_decomp [OF this] show "\<exists>pre post. S = pre @ R @ post" by blast
next
  assume "\<exists>pre post. S = pre @ R @ post"
  then obtain pre post where "S = pre @ R @ post" by blast
  with indexOf_occurrence [of pre R post] show "includes_js S R"
    by (simp add: includes_js_def)
qed

lemma indexOf_first:
  "indexOf S R = Some j \<Longrightarrow> i < j \<Longrightarrow> \<not> prefix R (drop i S)"
proof (induction S arbitrary: i j)
  case Nil
  then show ?case by (simp split: if_splits)
next
  case (Cons c cs)
  from Cons.prems have np: "\<not> prefix R (c # cs)" by (auto split: if_splits)
  with Cons.prems obtain k where k: "indexOf cs R = Some k" "j = Suc k" by auto
  show ?case
  proof (cases i)
    case 0
    with np show ?thesis by simp
  next
    case (Suc i')
    with Cons.prems k have "i' < k" by simp
    from Cons.IH [OF k(1) this] Suc show ?thesis by simp
  qed
qed

lemma indexOf_empty: "indexOf S [] = Some 0"
  by (cases S) simp_all

subsection \<open>Replacement templates without a dollar sign\<close>

lemma getSubstitution_literal:
  "CHR ''$'' \<notin> set template \<Longrightarrow> getSubstitution matched str position template = template"
  by (induction matched str position template rule: getSubstitution.induct) auto

lemma replace_js_literal:
  assumes "indexOf S R = Some j" and "CHR ''$'' \<notin> set template"
  shows "replace_js S R template = take j S @ template @ drop (j + length R) S"
  using assms by (simp add: replace_js_def getSubstitution_literal)

subsection \<open>Lines of a text\<close>

lemma indexOf_char_absent: "c \<notin> set l \<Longrightarrow> indexOf l [c] = None"
  by (induction l) auto

lemma indexOf_char_first: "c \<notin> set l \<Longrightarrow> indexOf (l @ c # rest) [c] = Some (length l)"
  by (induction l) auto

lemma split_js_last_line: "c \<notin> set l \<Longrightarrow> split_js l [c] = [l]"
  by (subst split_js.simps) (simp add: indexOf_char_absent)

lemma split_js_line:
  "c \<notin> set l \<Longrightarrow> split_js (l @ c # rest) [c] = l # split_js rest [c]"
  by (subst split_js.simps) (simp add: indexOf_char_first)

lemma split_js_join_js:
  "ls \<noteq> [] \<Longrightarrow> \<forall>l \<in> set ls. c \<notin> set l \<Longrightarrow> split_js (join_js ls [c]) [c] = ls"
proof (induction ls "[c]" rule: join_js.induct)
  case 1
  then show ?case by simp
next
  case (2 x)
  then show ?case by (simp add: split_js_last_line)
next
  case (3 x y ys)
  then show ?case by (simp add: split_js_line)
qed

lemma slice_js_from:
  assumes "0 \<le> start" and "0 \<le> count"
  shows "slice_js xs start (start + count) = take (nat count) (drop (nat start) xs)"
proof (cases "start \<le> int (length xs)")
  case True
  with assms show ?thesis
    by (auto simp: slice_js_def Let_def min_def max_def take_all_iff nat_le_iff)
next
  case False
  with assms show ?thesis
    by (auto simp: slice_js_def Let_def min_def max_def)
qed

lemma length_numbered: "length (numbered offset sel) = length sel"
  by (simp add: numbered_def)

lemma nth_numbered:
  "k < length sel \<Longrightarrow>
   numbered offset sel ! k = numberToString (offset + int k) @ '' | '' @ sel ! k"
  by (simp add: numbered_def nth_enumerate_eq)

lemma numberToString_examples: "numberToString 5 = ''5''" "numberToString 6 = ''6''" "numberToString 7 = ''7''"
  by (simp_all add: numberToString_def digits.simps)

lemma readFile_lines:
  assumes "files disk filePath = Some text" and "1 \<le> offset" and "0 \<le> limit"
  shows "readFile disk filePath (Some offset) (Some limit) =
         join_js (numbered offset (take (nat limit) (drop (nat (offset - 1)) (split_js text [CHR 0x0A])))) [CHR 0x0A]"
proof -
  have "slice_js (split_js text [CHR 0x0A]) (offset - 1) (offset - 1 + limit) =
        take (nat limit) (drop (nat (offset - 1)) (split_js text [CHR 0x0A]))"
    using assms by (intro slice_js_from) simp_all
  with assms(1) show ?thesis by (simp add: readFile_def)
qed

lemma readFile_ten_lines:
  assumes "files disk filePath = Some text"
    and "length (split_js text [CHR 0x0A]) = 10"
  shows "readFile disk filePath (Some 5) (Some 3) =
         join_js [''5 | '' @ split_js text [CHR 0x0A] ! 4,
                  ''6 | '' @ split_js text [CHR 0x0A] ! 5,
                  ''7 | '' @ split_js text [CHR 0x0A] ! 6] [CHR 0x0A]"
proof -
  let ?ls = "split_js text [CHR 0x0A]"
  from assms(2) obtain l1 l2 l3 l4 l5 l6 l7 l8 l9 l10 where
    "?ls = [l1, l2, l3, l4, l5, l6, l7, l8, l9, l10]"
    by (auto simp: length_Suc_conv eval_nat_numeral)
  then have "take 3 (drop 4 ?ls) = [?ls ! 4, ?ls ! 5, ?ls ! 6]"
    by simp
  then have "numbered 5 (take 3 (drop 4 ?ls)) =
      [''5 | '' @ ?ls ! 4, ''6 | '' @ ?ls ! 5, ''7 | '' @ ?ls ! 6]"
    using numberToString_examples by (simp add: numbered_def enumerate_eq_zip upt_rec)
  with readFile_lines [OF assms(1), of 5 3] show ?thesis by simp
qed

subsection \<open>The decoder inverts the encoder\<close>

lemma hexValue_hexDigit_all: "\<forall>n \<in> set [0..<16]. hexValue (hexDigit n) = Some n"
  by code_simp

lemma hexValue_hexDigit: "n < 16 \<Longrightarrow> hexValue (hexDigit n) = Some n"
  using hexValue_hexDigit_all by simp

lemma code_unit_control:
  assumes "of_char c < (32 :: nat)"
  shows "code_unit (CHR ''0'') (CHR ''0'') (hexDigit (of_char c div 16)) (hexDigit (of_char c mod 16))
           = Some c"
proof -
  have z: "hexValue (CHR ''0'') = Some 0" by (simp add: hexValue_def)
  from assms have "(of_char c :: nat) div 16 < 16" by simp
  then have h1: "hexValue (hexDigit (of_char c div 16)) = Some (of_char c div 16)"
    by (rule hexValue_hexDigit)
  have h0: "hexValue (hexDigit (of_char c mod 16)) = Some (of_char c mod 16)"
    by (rule hexValue_hexDigit) simp
  have "char_of (16 * ((of_char c :: nat) div 16) + of_char c mod 16) = c" by simp
  with z h1 h0 show ?thesis by (simp add: code_unit_def)
qed

lemma parse_chars_quoteJSONChar:
  "parse_chars (quoteJSONChar c @ tail) = map_option (apfst ((#) c)) (parse_chars tail)"
proof -
  consider (named) "c \<in> set [CHR 0x08, CHR 0x09, CHR 0x0A, CHR 0x0C, CHR 0x0D, CHR 0x22, CHR 0x5C]"
    | (control) "c \<notin> set [CHR 0x08, CHR 0x09, CHR 0x0A, CHR 0x0C, CHR 0x0D, CHR 0x22, CHR 0x5C]"
        "of_char c < (32 :: nat)"
    | (plain) "c \<notin> set [CHR 0x08, CHR 0x09, CHR 0x0A, CHR 0x0C, CHR 0x0D, CHR 0x22, CHR 0x5C]"
        "\<not> of_char c < (32 :: nat)"
    by blast
  then show ?thesis
  proof cases
    case named
    then consider "c = CHR 0x08" | "c = CHR 0x09" | "c = CHR 0x0A" | "c = CHR 0x0C"
      | "c = CHR 0x0D" | "c = CHR 0x22" | "c = CHR 0x5C"
      by auto
    then show ?thesis
      by cases (simp_all add: quoteJSONChar_def unescape_def)
  next
    case control
    then have q: "quoteJSONChar c = [CHR 0x5C, CHR ''u'', CHR ''0'', CHR ''0'',
         hexDigit (of_char c div 16), hexDigit (of_char c mod 16)]"
      by (simp add: quoteJSONChar_def)
    from control(2) have "code_unit (CHR ''0'') (CHR ''0'') (hexDigit (of_char c div 16))
        (hexDigit (of_char c mod 16)) = Some c"
      by (rule code_unit_control)
    with q show ?thesis by simp
  next
    case plain
    then have "quoteJSONChar c = [c]" by (simp add: quoteJSONChar_def)
    with plain show ?thesis by simp
  qed
qed

lemma parse_chars_quoted:
  "parse_chars (concat (map quoteJSONChar s) @ CHR 0x22 # rest) = Some (s, rest)"
  by (induction s) (simp_all add: parse_chars_quoteJSONChar)

lemma parse_elements_quoted:
  "xs \<noteq> [] \<Longrightarrow>
   parse_elements (join_js (map quoteJSONString xs) '','' @ '']'') = Some xs"
proof (induction xs rule: induct_list012)
  case 1
  then show ?case by simp
next
  case (2 x)
  show ?case
    by (subst parse_elements.simps) (simp add: quoteJSONString_def parse_chars_quoted)
next
  case (3 x y zs)
  then have "parse_elements (join_js (map quoteJSONString (y # zs)) '','' @ '']'') = Some (y # zs)"
    by simp
  then show ?case
    by (subst parse_elements.simps) (simp add: quoteJSONString_def parse_chars_quoted)
qed

lemma parse_stringify_strings: "parse_string_array (stringify_strings xs) = Some xs"
proof (cases xs)
  case Nil
  then show ?thesis by (simp add: parse_string_array_def stringify_strings_def)
next
  case (Cons x ys)
  then have "xs \<noteq> []" by simp
  from parse_elements_quoted [OF this]
  have p: "parse_elements (join_js (map quoteJSONString xs) '','' @ '']'') = Some xs" .
  have "join_js (map quoteJSONString xs) '','' @ '']'' \<noteq> '']''"
    using Cons by (cases ys) (simp_all add: quoteJSONString_def)
  with p show ?thesis by (simp add: parse_string_array_def stringify_strings_def)
qed

subsection \<open>Edits with a literal replacement\<close>

lemma editFile_first_literal:
  assumes "files disk filePath = Some text" and "indexOf text oldString = Some j"
    and "CHR ''$'' \<notin> set newString" and "write_error disk filePath = None"
    and "replaceAll \<noteq> Some True"
  shows "editFile disk filePath oldString newString replaceAll =
           (''File edited successfully at '' @ filePath,
            disk\<lparr>files := (files disk)(filePath \<mapsto>
               take j text @ newString @ drop (j + length oldString) text)\<rparr>)"
  using assms by (simp add: editFile_def includes_js_def replace_js_literal)

lemma editFile_empty_oldString_found:
  assumes "files disk filePath = Some text"
  shows "fst (editFile disk filePath [] newString replaceAll) \<noteq>
     ''Error: oldString not found in file. Please ensure exact matching including indentation.''"
  using assms
  by (simp add: editFile_def includes_js_def indexOf_empty Let_def split: option.splits)

lemma editFile_empty_oldString_literal:
  assumes "files disk filePath = Some text" and "CHR ''$'' \<notin> set newString"
    and "write_error disk filePath = None" and "replaceAll \<noteq> Some True"
  shows "editFile disk filePath [] newString replaceAll =
           (''File edited successfully at '' @ filePath,
            disk\<lparr>files := (files disk)(filePath \<mapsto> newString @ text)\<rparr>)"
  using editFile_first_literal [OF assms(1) indexOf_empty assms(2,3,4)] by simp

text \<open>With \<open>replaceAll\<close> set, every occurrence is replaced by \<open>newString\<close> as it is.\<close>

lemma split_js_not_Nil: "R \<noteq> [] \<Longrightarrow> split_js S R \<noteq> []"
  by (subst split_js.simps) (simp split: option.splits)

lemma join_js_Cons: "xs \<noteq> [] \<Longrightarrow> join_js (x # xs) sep = x @ sep @ join_js xs sep"
  by (cases xs) simp_all

lemma join_split_replace_every:
  "R \<noteq> [] \<Longrightarrow> join_js (split_js S R) T = replace_every S R T"
proof (induction S R rule: split_js.induct)
  case (1 S R)
  show ?case
  proof (cases "indexOf S R")
    case None
    with "1.prems" show ?thesis
      by (subst split_js.simps, subst replace_every.simps) simp
  next
    case (Some j)
    from "1.IH" [OF "1.prems" Some "1.prems"]
    have "join_js (split_js (drop (j + length R) S) R) T =
            replace_every (drop (j + length R) S) R T" .
    with "1.prems" Some show ?thesis
      by (subst split_js.simps, subst replace_every.simps)
         (simp add: join_js_Cons split_js_not_Nil)
  qed
qed

lemma editFile_replaceAll_every:
  assumes "files disk filePath = Some text" and "includes_js text oldString"
    and "oldString \<noteq> []" and "write_error disk filePath = None"
  shows "editFile disk filePath oldString newString (Some True) =
           (''File edited successfully at '' @ filePath,
            disk\<lparr>files := (files disk)(filePath \<mapsto> replace_every text oldString newString)\<rparr>)"
  using assms by (simp add: editFile_def join_split_replace_every)

subsection \<open>The aggregator as a function of the parts\<close>

lemma batches_snoc:
  "batches (parts @ [p]) =
     batches parts @ (case tool_calls (message p) of None \<Rightarrow> [] | Some b \<Rightarrow> [b])"
  by (simp add: batches_def map_filter_def split: option.splits)

lemma aggregate_eq: "aggregate parts = (deltas parts, last_batch parts)"
proof (induction parts rule: rev_induct)
  case Nil
  show ?case by (simp add: aggregate_def deltas_def last_batch_def batches_def map_filter_def)
next
  case (snoc p parts)
  then have "aggregate (parts @ [p]) = consume (deltas parts, last_batch parts) p"
    by (simp add: aggregate_def)
  also have "\<dots> = (deltas (parts @ [p]), last_batch (parts @ [p]))"
    by (simp add: consume_def deltas_def last_batch_def batches_snoc split: option.splits)
  finally show ?case .
qed

lemma last_batch_nonempty:
  assumes "[] \<notin> set (batches parts)"
  shows "last_batch parts = last_nonempty_batch parts"
proof -
  from assms have "filter (\<lambda>b. b \<noteq> []) (batches parts) = batches parts"
    by (auto simp: filter_id_conv)
  then show ?thesis by (simp add: last_batch_def last_nonempty_batch_def)
qed

subsection \<open>Histories\<close>

lemma answered_append:
  "answered pending (xs @ ys) =
     (case answered pending xs of None \<Rightarrow> None | Some left \<Rightarrow> answered left ys)"
  by (induction pending xs rule: answered.induct) (auto split: list.splits)

lemma answered_tool_messages:
  "length results = length calls \<Longrightarrow>
   answered (calls @ pending) (map2 tool_message calls results) = Some pending"
proof (induction calls arbitrary: results)
  case Nil
  then show ?case by simp
next
  case (Cons c calls)
  then obtain r rs where "results = r # rs" by (cases results) auto
  with Cons show ?case by (simp add: tool_message_def)
qed

lemma answered_tool_follows:
  assumes "answered pending ms = Some left" and "i < length ms" and "role (ms ! i) = Tool"
  shows "(\<exists>c \<in> set pending. name (ms ! i) = Some (function_name c)) \<or>
         (\<exists>j < i. role (ms ! j) = Assistant \<and>
            (\<exists>c \<in> set (declared_calls (ms ! j)). name (ms ! i) = Some (function_name c)))"
  using assms
proof (induction pending ms arbitrary: i rule: answered.induct)
  case (1 pending)
  then show ?case by simp
next
  case (2 pending m ms)
  show ?case
  proof (cases i)
    case 0
    with "2.prems" show ?thesis by (auto split: list.splits if_splits)
  next
    case (Suc k)
    with "2.prems" have k: "k < length ms" "role (ms ! k) = Tool" by simp_all
    show ?thesis
    proof (cases "role m = Tool")
      case True
      with "2.prems"(1) obtain c rest where p: "pending = c # rest"
        "name m = Some (function_name c)" "answered rest ms = Some left"
        by (auto split: list.splits if_splits)
      from "2.IH"(1) [OF True p(1) p(2) p(3) k]
      show ?thesis using Suc p(1) by fastforce
    next
      case False
      with "2.prems"(1) have e: "\<not> pending \<noteq> []"
        "answered (if role m = Assistant then declared_calls m else []) ms = Some left"
        by (auto split: if_splits)
      from "2.IH"(2) [OF False e k]
      have "(\<exists>c \<in> set (if role m = Assistant then declared_calls m else []).
                name (ms ! k) = Some (function_name c)) \<or>
            (\<exists>j < k. role (ms ! j) = Assistant \<and>
               (\<exists>c \<in> set (declared_calls (ms ! j)). name (ms ! k) = Some (function_name c)))" .
      then show ?thesis
      proof
        assume "\<exists>c \<in> set (if role m = Assistant then declared_calls m else []).
                name (ms ! k) = Some (function_name c)"
        then have "role m = Assistant"
          "\<exists>c \<in> set (declared_calls m). name (ms ! k) = Some (function_name c)"
          by (auto split: if_splits)
        then have "\<exists>j < i. role ((m # ms) ! j) = Assistant \<and>
               (\<exists>c \<in> set (declared_calls ((m # ms) ! j)).
                  name ((m # ms) ! i) = Some (function_name c))"
          using Suc by (intro exI [of _ 0]) simp
        then show ?thesis ..
      next
        assume "\<exists>j < k. role (ms ! j) = Assistant \<and>
               (\<exists>c \<in> set (declared_calls (ms ! j)). name (ms ! k) = Some (function_name c))"
        then obtain j where "j < k" "role (ms ! j) = Assistant"
          "\<exists>c \<in> set (declared_calls (ms ! j)). name (ms ! k) = Some (function_name c)"
          by blast
        then have "\<exists>j < i. role ((m # ms) ! j) = Assistant \<and>
               (\<exists>c \<in> set (declared_calls ((m # ms) ! j)).
                  name ((m # ms) ! i) = Some (function_name c))"
          using Suc by (intro exI [of _ "Suc j"]) simp
        then show ?thesis ..
      qed
    qed
  qed
qed

lemma conforms_tool_follows:
  assumes "conforms history" and "i < length history" and "role (history ! i) = Tool"
  shows "\<exists>j < i. role (history ! j) = Assistant \<and>
            (\<exists>c \<in> set (declared_calls (history ! j)).
               name (history ! i) = Some (function_name c))"
  using answered_tool_follows [of "[]" history "[]" i] assms by (simp add: conforms_def)

lemma executeTool_messages: "messages (snd (executeTool P R toolCall st)) = messages st"
  by (simp add: executeTool_def Let_def split: option.splits prod.splits sum.splits)

lemma run_tool_calls_messages:
  "\<exists>results. length results = length calls \<and>
     messages (run_tool_calls P R calls st) = messages st @ map2 tool_message calls results"
proof (induction calls arbitrary: st)
  case Nil
  show ?case by simp
next
  case (Cons c calls)
  obtain result st1 where e: "executeTool P R c st = (result, st1)"
    by (cases "executeTool P R c st")
  then have m: "messages st1 = messages st"
    using executeTool_messages [of P R c st] by simp
  let ?st2 = "st1\<lparr>messages := messages st1 @
                [\<lparr>role = Tool, content = result, tool_calls = None,
                  name = Some (function_name c)\<rparr>]\<rparr>"
  from Cons.IH [of ?st2] obtain rs where rs: "length rs = length calls"
    "messages (run_tool_calls P R calls ?st2) = messages ?st2 @ map2 tool_message calls rs"
    by blast
  have "length (result # rs) = length (c # calls)" using rs(1) by simp
  moreover have "messages (run_tool_calls P R (c # calls) st) =
      messages st @ map2 tool_message (c # calls) (result # rs)"
    using e m rs(2) by (simp add: tool_message_def)
  ultimately show ?case by blast
qed

lemma callAgent_messages:
  "callAgent B st = (Inl err, st1) \<Longrightarrow> messages st1 = messages st"
  "callAgent B st = (Inr toolCalls, st1) \<Longrightarrow>
     \<exists>m. messages st1 = messages st @ [m] \<and> role m = Assistant \<and> declared_calls m = toolCalls"
  by (auto simp: callAgent_def Let_def declared_calls_def split: stream_outcome.splits prod.splits)

lemma conforms_turn:
  assumes "conforms (messages st)" and "callAgent B st = (Inr toolCalls, st1)"
  shows "conforms (messages (run_tool_calls P R toolCalls st1))"
    and "prefix (messages st) (messages (run_tool_calls P R toolCalls st1))"
proof -
  from callAgent_messages(2) [OF assms(2)] obtain m where
    m: "messages st1 = messages st @ [m]" "role m = Assistant" "declared_calls m = toolCalls"
    by blast
  from run_tool_calls_messages [of toolCalls P R st1] obtain results where
    r: "length results = length toolCalls"
       "messages (run_tool_calls P R toolCalls st1) =
          messages st1 @ map2 tool_message toolCalls results"
    by blast
  from answered_tool_messages [OF r(1), of "[]"]
  have "answered toolCalls (map2 tool_message toolCalls results) = Some []" by simp
  with assms(1) m r(2) show "conforms (messages (run_tool_calls P R toolCalls st1))"
    by (simp add: conforms_def answered_append)
  from m(1) r(2) show "prefix (messages st) (messages (run_tool_calls P R toolCalls st1))"
    by simp
qed

lemma inner_loop_conforms:
  "conforms (messages st) \<Longrightarrow>
   conforms (messages (snd (inner_loop turns P R B st))) \<and>
   prefix (messages st) (messages (snd (inner_loop turns P R B st)))"
proof (induction turns arbitrary: st)
  case 0
  then show ?case by simp
next
  case (Suc turns)
  obtain r st1 where c: "callAgent B st = (r, st1)" by (cases "callAgent B st")
  show ?case
  proof (cases r)
    case (Inl err)
    with c callAgent_messages(1) [of B st err st1] Suc.prems show ?thesis by simp
  next
    case (Inr toolCalls)
    with c have c': "callAgent B st = (Inr toolCalls, st1)" by simp
    show ?thesis
    proof (cases "toolCalls = []")
      case True
      from conforms_turn [OF Suc.prems c', of P R] True c' show ?thesis by simp
    next
      case False
      let ?st2 = "run_tool_calls P R toolCalls st1"
      from conforms_turn [OF Suc.prems c', of P R]
      have "conforms (messages ?st2)" "prefix (messages st) (messages ?st2)" by simp_all
      with Suc.IH [of ?st2] False c' show ?thesis
        by (auto intro: prefix_order.trans)
    qed
  qed
qed

lemma chat_conforms:
  "conforms (messages st) \<Longrightarrow>
   conforms (messages (snd (chat turns P R B inputs st))) \<and>
   prefix (messages st) (messages (snd (chat turns P R B inputs st)))"
proof (induction inputs arbitrary: st)
  case Nil
  then show ?case by simp
next
  case (Cons userInput rest)
  let ?st0 = "st\<lparr>terminal := terminal st @ [Prompt_You],
                messages := messages st @
                  [\<lparr>role = User, content = userInput, tool_calls = None, name = None\<rparr>]\<rparr>"
  from Cons.prems have "conforms (messages ?st0)"
    by (simp add: conforms_def answered_append)
  from inner_loop_conforms [OF this, of turns P R B]
  have i: "conforms (messages (snd (inner_loop turns P R B ?st0)))"
    "prefix (messages st) (messages (snd (inner_loop turns P R B ?st0)))"
    by (auto dest: append_prefixD)
  obtain s st1 where l: "inner_loop turns P R B ?st0 = (s, st1)"
    by (cases "inner_loop turns P R B ?st0")
  show ?case
  proof (cases s)
    case AwaitingUser
    with l i Cons.IH [of st1] show ?thesis by (auto intro: prefix_order.trans)
  next
    case (Crashed err)
    with l i show ?thesis by simp
  next
    case ModelTurn
    with l i show ?thesis by simp
  qed
qed

lemma executeTool_not_found:
  assumes "lookup_tool (function_name toolCall) = None"
  shows "fst (executeTool P R toolCall st) =
           ''Error: Tool '' @ function_name toolCall @ '' not found.''"
    and "messages (snd (executeTool P R toolCall st)) = messages st"
    and "fs (snd (executeTool P R toolCall st)) = fs st"
  using assms by (simp_all add: executeTool_def Let_def)

lemma executeTool_thrown:
  assumes "lookup_tool (function_name toolCall) = Some t"
    and "t P R (function_arguments toolCall) (fs st) = (Inl err, disk)"
  shows "fst (executeTool P R toolCall st) =
           ''Error executing '' @ function_name toolCall @ '': '' @ err"
  using assms by (simp add: executeTool_def Let_def)

subsection \<open>The two variants without tools\<close>

text \<open>When the one-shot reply to a history always has the text of the streamed reply to
  it, the non-streaming variant and the streaming variant without tools append the same
  messages over a whole session.\<close>

lemma chat_stream_agrees_with_no_stream:
  assumes "\<And>msgs. \<exists>parts reply.
             ollama_chat B (stream_request msgs) = Completed parts \<and>
             fetch_chat B (callChat_request msgs) = Ok_reply reply \<and>
             content reply = deltas parts"
    and "messages st = messages st'"
  shows "fst (chat_stream B inputs st) = AwaitingUser \<and>
         fst (chat_no_stream B inputs st') = AwaitingUser \<and>
         messages (snd (chat_stream B inputs st)) = messages (snd (chat_no_stream B inputs st'))"
  using assms(2)
proof (induction inputs arbitrary: st st')
  case Nil
  then show ?case by simp
next
  case (Cons userInput rest)
  let ?msgs = "messages st @ [user_message userInput]"
  from assms(1) [of ?msgs] obtain parts reply where
    r: "ollama_chat B (stream_request ?msgs) = Completed parts"
       "fetch_chat B (callChat_request ?msgs) = Ok_reply reply"
       "content reply = deltas parts"
    by blast
  let ?s = "st\<lparr>terminal := terminal st @ [Prompt_You, Prompt_Agent] @ written parts @ [Write [CHR 0x0A]],
               messages := ?msgs @ [assistant_message (deltas parts)]\<rparr>"
  let ?n = "st'\<lparr>messages := ?msgs @ [assistant_message (deltas parts)],
                terminal := terminal st' @ [Prompt_You, Log_Agent (deltas parts)]\<rparr>"
  have s: "chat_stream B (userInput # rest) st = chat_stream B rest ?s"
    using r(1) by (simp add: user_message_def assistant_message_def deltas_def Let_def)
  have n: "chat_no_stream B (userInput # rest) st' = chat_no_stream B rest ?n"
    using r(2,3) Cons.prems
    by (simp add: callChat_def user_message_def assistant_message_def Let_def)
  have "messages ?s = messages ?n" by simp
  from Cons.IH [OF this] s n show ?case by simp
qed

subsection \<open>The text returned by findFiles and the glob model\<close>

text \<open>Whatever matches the library yields, the text returned denotes exactly these
  matches, each joined to the working directory, and is \<open>[]\<close> when there is none.\<close>

lemma findFiles_decodes:
  assumes "glob P disk pattern ''node_modules/**'' = Inr matches"
  shows "parse_string_array (findFiles P disk pattern) =
           Some (map (path_join P (cwd P)) matches)"
    and "matches = [] \<Longrightarrow> findFiles P disk pattern = ''[]''"
proof -
  from assms show "parse_string_array (findFiles P disk pattern) =
           Some (map (path_join P (cwd P)) matches)"
    by (simp add: findFiles_def parse_stringify_strings)
  from assms show "matches = [] \<Longrightarrow> findFiles P disk pattern = ''[]''"
    by (simp add: findFiles_def stringify_strings_def)
qed

text \<open>On a plain pattern the model yields the entries of the tree that match and do not
  lie in the top-level \<open>node_modules\<close>.\<close>

lemma glob_js_plain:
  assumes "plain_pattern pattern"
  shows "glob_js other tree pattern ''node_modules/**'' = Inr (filter (selected pattern) tree)"
  using assms by (simp add: glob_js_def)

lemma selected_outside_top_level:
  "selected pattern p \<Longrightarrow> p \<noteq> ''node_modules'' \<and> \<not> prefix ''node_modules/'' p"
  by (simp add: selected_def ignored_def)

lemma split_test_pattern: "split_js ''**/*.test.js'' ''/'' = [''**'', ''*.test.js'']"
  by (simp add: split_js.simps)

lemma plain_test_pattern: "plain_pattern ''**/*.test.js''"
  by (simp add: plain_pattern_def split_test_pattern name_pattern_def literal_char_def
      includes_js_def)

text \<open>The tree of the specification's example: \<open>a/x.test.js\<close> alone is listed.\<close>

lemma spec_tree:
  "working_tree project_paths spec_tree_disk = [''a'', ''a/x.test.js'', ''b'', ''b/y.js'']"
  by (simp add: working_tree_def project_paths_def spec_tree_disk_def)

lemma spec_tree_selected:
  "\<not> selected ''**/*.test.js'' ''a''"
  "selected ''**/*.test.js'' ''a/x.test.js''"
  "\<not> selected ''**/*.test.js'' ''b''"
  "\<not> selected ''**/*.test.js'' ''b/y.js''"
  by (simp_all add: selected_def split_js.simps match_segment_def hidden_def ignored_def)

lemma findFiles_spec_example:
  "findFiles example_platform spec_tree_disk ''**/*.test.js'' =
     ''['' @ [CHR 0x22] @ ''/home/user/project/a/x.test.js'' @ [CHR 0x22] @ '']''"
  by (simp add: findFiles_def example_platform_def example_glob_def glob_js_def
      plain_test_pattern spec_tree spec_tree_selected
      stringify_strings_def quoteJSONString_def quoteJSONChar_def)

text \<open>The project with two dependency directories.\<close>

lemma monorepo_tree:
  "working_tree project_paths monorepo_disk =
     [''b'', ''b/y.js'', ''node_modules'', ''node_modules/dep'', ''node_modules/dep/z.test.js'',
      ''pkg'', ''pkg/node_modules'', ''pkg/node_modules/dep'', ''pkg/node_modules/dep/q.test.js'']"
  by (simp add: working_tree_def project_paths_def monorepo_disk_def)

lemma monorepo_selected:
  "\<not> selected ''**/*.test.js'' ''b''"
  "\<not> selected ''**/*.test.js'' ''b/y.js''"
  "\<not> selected ''**/*.test.js'' ''node_modules''"
  "\<not> selected ''**/*.test.js'' ''node_modules/dep''"
  "\<not> selected ''**/*.test.js'' ''node_modules/dep/z.test.js''"
  "\<not> selected ''**/*.test.js'' ''pkg''"
  "\<not> selected ''**/*.test.js'' ''pkg/node_modules''"
  "\<not> selected ''**/*.test.js'' ''pkg/node_modules/dep''"
  "selected ''**/*.test.js'' ''pkg/node_modules/dep/q.test.js''"
  by (simp_all add: selected_def split_js.simps match_segment_def hidden_def ignored_def)

subsection \<open>The output of a failed search command\<close>

text \<open>\<open>executeCommand\<close> keeps the message of a rejection and drops the output that came
  with it: searched from the parent directory, the command prints the matched line and,
  \<open>grep\<close> having met a directory it may not read, exits with a failure status; the
  function then returns \<open>No matches found.\<close>\<close>

lemma searchFileContents_drops_output_of_failed_command:
  "exec example_platform example_disk (grep_command ''a ='' ''..'' None None)
     = Rejected (''Command failed: '' @ grep_command ''a ='' ''..'' None None @ [CHR 0x0A]
                   @ ''grep: ../private: Permission denied'' @ [CHR 0x0A])
         (''../project/a.js:1:a = 1;'' @ [CHR 0x0A])
         (''grep: ../private: Permission denied'' @ [CHR 0x0A]) \<and>
   searchFileContents example_platform example_disk ''a ='' (Some ''..'') None None
     = Inr ''No matches found.'' \<and>
   searchFileContents example_platform example_disk ''a ='' (Some ''..'') None None
     \<noteq> Inr ''../project/a.js:1:a = 1;''"
  by (simp add: example_platform_def searchFileContents_def executeCommand_def truthy_def
      grep_command_def Let_def)

section \<open>The streaming aggregator (claim C1)\<close>

text \<open>
  Claim C1, as amended. For every reply that the backend delivers to completion,
  \<open>callAgent\<close> returns the last tool-call batch that is present on a part of the reply
  (the empty batch when no part carries one) and appends exactly one message to the
  history: an assistant message whose text is the concatenation of the text deltas in
  arrival order and whose batch is the returned one (the field is left out when the batch
  is empty). The files are not touched. An empty batch counts as present, so the returned
  batch is the last non-empty batch whenever no part carries an empty batch.
\<close>

theorem callAgent_aggregates:
  assumes "ollama_chat B
             (agent_request (messages st)) = Completed parts"
  shows "fst (callAgent B st) = Inr (last_batch parts) \<and>
         messages (snd (callAgent B st)) = messages st @
           [\<lparr>role = Assistant, content = deltas parts,
             tool_calls = (if last_batch parts = [] then None else Some (last_batch parts)),
             name = None\<rparr>] \<and>
         fs (snd (callAgent B st)) = fs st \<and>
         ([] \<notin> set (batches parts) \<longrightarrow> last_batch parts = last_nonempty_batch parts)"
  using assms by (simp add: callAgent_def aggregate_eq last_batch_nonempty)

text \<open>Claim C1, witness: the example backend answers the question about the tests with
  one part that carries one call.\<close>

theorem callAgent_aggregates_witness:
  "ollama_chat example_backend
     (agent_request (messages asked_state))
     = Completed [\<lparr>message = example_reply\<rparr>] \<and>
   fst (callAgent example_backend asked_state) = Inr [example_call] \<and>
   messages (snd (callAgent example_backend asked_state)) =
     messages asked_state @ [example_reply]"
proof -
  have h: "ollama_chat example_backend
     (agent_request (messages asked_state))
     = Completed [\<lparr>message = example_reply\<rparr>]"
    by (simp add: example_backend_def asked_state_def user_message_def agent_request_def)
  have b: "last_batch [\<lparr>message = example_reply\<rparr>] = [example_call]"
    by (simp add: last_batch_def batches_def map_filter_def example_reply_def)
  have d: "deltas [\<lparr>message = example_reply\<rparr>] = ''Searching.''"
    by (simp add: deltas_def example_reply_def)
  from callAgent_aggregates [OF h] h b d show ?thesis
    by (simp add: example_reply_def)
qed

text \<open>Claim C1, counterexample to the claim as stated: when the part that carries a call
  is followed by a part that carries an empty batch, the empty batch is retained and not
  the last non-empty one, and the assistant message declares no call.\<close>

theorem callAgent_retains_empty_batch:
  "ollama_chat retracting_backend
     (agent_request (messages asked_state)) = Completed retracting_parts \<and>
   last_nonempty_batch retracting_parts = [example_call] \<and>
   fst (callAgent retracting_backend asked_state) = Inr [] \<and>
   tool_calls (last (messages (snd (callAgent retracting_backend asked_state)))) = None"
  by (simp add: retracting_backend_def retracting_parts_def last_nonempty_batch_def batches_def
      map_filter_def example_reply_def callAgent_def aggregate_def consume_def)

section \<open>The conversation loop (claim C2)\<close>

text \<open>
  Claim C2. In the inner loop, a model turn that returns \<open>N > 0\<close> tool calls is followed
  by exactly \<open>N\<close> tool messages appended to the history, one per call and in the order of
  the calls, each naming its call, and only then by the next model turn; a model turn that
  returns no call ends the inner loop, and the program waits for the user. Hence, from a
  history that conforms, every run of \<open>chat\<close>, stopped after any number of model turns,
  leaves a history that conforms, that extends the history it started from, and in which
  every tool message comes after an assistant message that declared a call of that name.
\<close>

theorem tool_results_follow_calls:
  "(callAgent B st = (Inr toolCalls, st1) \<and> toolCalls \<noteq> [] \<longrightarrow>
      (\<exists>results. length results = length toolCalls \<and>
         messages (run_tool_calls P R toolCalls st1) =
           messages st1 @ map2 tool_message toolCalls results) \<and>
      inner_loop (Suc turns) P R B st =
        inner_loop turns P R B (run_tool_calls P R toolCalls st1)) \<and>
   (callAgent B st' = (Inr [], st1') \<longrightarrow>
      inner_loop (Suc turns) P R B st' = (AwaitingUser, st1')) \<and>
   (conforms (messages st0) \<longrightarrow>
      conforms (messages (snd (chat turns P R B inputs st0))) \<and>
      prefix (messages st0) (messages (snd (chat turns P R B inputs st0))) \<and>
      (\<forall>i < length (messages (snd (chat turns P R B inputs st0))).
         role (messages (snd (chat turns P R B inputs st0)) ! i) = Tool \<longrightarrow>
         (\<exists>j < i. role (messages (snd (chat turns P R B inputs st0)) ! j) = Assistant \<and>
            (\<exists>c \<in> set (declared_calls (messages (snd (chat turns P R B inputs st0)) ! j)).
               name (messages (snd (chat turns P R B inputs st0)) ! i)
                 = Some (function_name c)))))"
proof (intro conjI impI)
  assume a: "callAgent B st = (Inr toolCalls, st1) \<and> toolCalls \<noteq> []"
  show "\<exists>results. length results = length toolCalls \<and>
         messages (run_tool_calls P R toolCalls st1) =
           messages st1 @ map2 tool_message toolCalls results"
    by (rule run_tool_calls_messages)
  from a show "inner_loop (Suc turns) P R B st =
        inner_loop turns P R B (run_tool_calls P R toolCalls st1)"
    by simp
next
  assume "callAgent B st' = (Inr [], st1')"
  then show "inner_loop (Suc turns) P R B st' = (AwaitingUser, st1')" by simp
next
  assume c: "conforms (messages st0)"
  let ?h = "messages (snd (chat turns P R B inputs st0))"
  from chat_conforms [OF c, of turns P R B inputs]
  show h: "conforms ?h" and "prefix (messages st0) ?h" by simp_all
  show "\<forall>i < length ?h. role (?h ! i) = Tool \<longrightarrow>
         (\<exists>j < i. role (?h ! j) = Assistant \<and>
            (\<exists>c \<in> set (declared_calls (?h ! j)). name (?h ! i) = Some (function_name c)))"
    using conforms_tool_follows [OF h] by blast
qed

text \<open>Claim C2, witness: asked for the tests, the example backend returns one call, whose
  result is appended as one tool message; on the initial history it returns no call and
  the inner loop ends; and the initial history conforms.\<close>

theorem tool_results_follow_calls_witness:
  "callAgent example_backend asked_state =
     (Inr [example_call], snd (callAgent example_backend asked_state)) \<and>
   [example_call] \<noteq> [] \<and>
   (\<exists>results. length results = length [example_call] \<and>
      messages (run_tool_calls example_platform example_runtime [example_call]
                  (snd (callAgent example_backend asked_state))) =
        messages (snd (callAgent example_backend asked_state))
          @ map2 tool_message [example_call] results) \<and>
   callAgent example_backend example_state =
     (Inr [], snd (callAgent example_backend example_state)) \<and>
   inner_loop (Suc (Suc (Suc 0))) example_platform example_runtime example_backend
       example_state =
     (AwaitingUser, snd (callAgent example_backend example_state)) \<and>
   conforms (messages example_state) \<and>
   conforms (messages (snd (chat (Suc (Suc 0)) example_platform example_runtime
      example_backend [''find the tests''] example_state)))"
proof -
  have h1: "callAgent example_backend asked_state =
     (Inr [example_call], snd (callAgent example_backend asked_state)) \<and> [example_call] \<noteq> []"
    by (simp add: prod_eq_iff callAgent_def aggregate_def consume_def example_backend_def
        asked_state_def user_message_def example_reply_def agent_request_def)
  have h2: "callAgent example_backend example_state =
     (Inr [], snd (callAgent example_backend example_state))"
    by (simp add: prod_eq_iff callAgent_def aggregate_def consume_def example_backend_def
        example_state_def initial_messages_def assistant_message_def agent_request_def)
  have h3: "conforms (messages example_state)"
    by (simp add: conforms_def example_state_def initial_messages_def)
  from tool_results_follow_calls
         [where B = example_backend and st = asked_state and toolCalls = "[example_call]"
            and ?st1.0 = "snd (callAgent example_backend asked_state)"
            and P = example_platform and R = example_runtime and turns = "Suc (Suc 0)"
            and st' = example_state
            and st1' = "snd (callAgent example_backend example_state)"
            and ?st0.0 = example_state and inputs = "[''find the tests'']"]
       h1 h2 h3
  show ?thesis by blast
qed

section \<open>Editing a file (claims C3, C4 and C10)\<close>

text \<open>
  Claim C3. When the file can be read and its content does not hold \<open>oldString\<close> as a
  substring, \<open>editFile\<close> returns the error text (it does not throw) and the file system after
  the call is the file system before it, whatever \<open>replaceAll\<close> is.
\<close>

theorem editFile_oldString_absent:
  assumes "files disk filePath = Some text"
    and "\<not> (\<exists>pre post. text = pre @ oldString @ post)"
  shows "editFile disk filePath oldString newString replaceAll =
     (''Error: oldString not found in file. Please ensure exact matching including indentation.'',
      disk)"
  using assms by (simp add: editFile_def includes_js_iff)

text \<open>Claim C3, witness: the file \<open>a.js\<close> of the example holds no \<open>b\<close>.\<close>

theorem editFile_oldString_absent_witness:
  "files example_disk ''a.js'' = Some ''a = 1;'' \<and>
   \<not> (\<exists>pre post. ''a = 1;'' = pre @ ''b'' @ post) \<and>
   editFile example_disk ''a.js'' ''b'' ''c'' (Some True) =
     (''Error: oldString not found in file. Please ensure exact matching including indentation.'',
      example_disk)"
proof -
  have h1: "files example_disk ''a.js'' = Some ''a = 1;''"
    by (simp add: example_disk_def)
  have "\<not> includes_js ''a = 1;'' ''b''"
    by (simp add: includes_js_def)
  then have h2: "\<not> (\<exists>pre post. ''a = 1;'' = pre @ ''b'' @ post)"
    using includes_js_iff [of "''a = 1;''" "''b''"] by blast
  from editFile_oldString_absent [OF h1 h2] h1 h2 show ?thesis by blast
qed

text \<open>
  Claim C4, at an input where the code departs from it. With \<open>replaceAll\<close> absent the
  code calls \<open>content.replace(oldString, newString)\<close>, which reads \<open>newString\<close> as a
  replacement template. Replacing \<open>1\<close> by the three characters \<open>'$'\<close> in \<open>a = 1;\<close>
  writes \<open>a = ';;\<close>: the two characters \<open>$'\<close> were expanded to the text after the match.
  The file does not hold \<open>newString\<close> in place of the first occurrence.
\<close>

theorem editFile_first_occurrence_expands_dollar:
  "editFile example_disk ''a.js'' ''1'' ([CHR 0x27] @ ''$'' @ [CHR 0x27]) None =
     (''File edited successfully at a.js'',
      example_disk\<lparr>files := (files example_disk)
        (''a.js'' \<mapsto> ''a = '' @ [CHR 0x27] @ '';;'')\<rparr>) \<and>
   files (snd (editFile example_disk ''a.js'' ''1'' ([CHR 0x27] @ ''$'' @ [CHR 0x27]) None))
      ''a.js''
     \<noteq> Some (''a = '' @ [CHR 0x27] @ ''$'' @ [CHR 0x27] @ '';'')"
  by (simp add: editFile_def includes_js_def replace_js_def example_disk_def)

text \<open>
  Claim C10, at an input where the code departs from it. An empty \<open>oldString\<close> is found at
  position 0 of every content, so the edit is accepted; but \<open>newString\<close> is again read as a
  replacement template: inserting the two characters \<open>$$\<close> in front of \<open>a = 1;\<close> writes
  \<open>$a = 1;\<close>, one dollar sign and not two.
\<close>

theorem editFile_empty_oldString_expands_dollar:
  "editFile example_disk ''a.js'' [] ''$$'' None =
     (''File edited successfully at a.js'',
      example_disk\<lparr>files := (files example_disk)(''a.js'' \<mapsto> ''$a = 1;'')\<rparr>) \<and>
   files (snd (editFile example_disk ''a.js'' [] ''$$'' None)) ''a.js''
     \<noteq> Some (''$$'' @ ''a = 1;'')"
  by (simp add: editFile_def includes_js_def replace_js_def example_disk_def)

section \<open>Reading a file (claim C5)\<close>

text \<open>
  Claim C5. For a readable file, an offset of at least 1 and a limit of at least 0,
  \<open>readFile\<close> returns the lines \<open>shown\<close> joined by newlines, where \<open>shown\<close> has at most
  \<open>limit\<close> entries, as many as the file has lines from line \<open>offset\<close> on, and its \<open>k\<close>-th
  entry is line \<open>offset + k\<close> of the file (counting lines from 1) behind the decimal text
  of \<open>offset + k\<close> and a bar. An offset beyond the last line gives the empty text. On a
  file of ten lines, offset 5 and limit 3 give lines 5, 6 and 7 with the prefixes 5, 6
  and 7.
\<close>

theorem readFile_window:
  assumes "files disk filePath = Some text" and "1 \<le> offset" and "0 \<le> limit"
  shows "\<exists>shown.
           readFile disk filePath (Some offset) (Some limit) = join_js shown [CHR 0x0A] \<and>
           length shown = min (nat limit) (length (split_js text [CHR 0x0A]) - nat (offset - 1)) \<and>
           (\<forall>k < length shown.
              shown ! k = numberToString (offset + int k) @ '' | ''
                            @ split_js text [CHR 0x0A] ! (nat (offset - 1) + k)) \<and>
           (int (length (split_js text [CHR 0x0A])) < offset \<longrightarrow>
              readFile disk filePath (Some offset) (Some limit) = []) \<and>
           (offset = 5 \<and> limit = 3 \<and> length (split_js text [CHR 0x0A]) = 10 \<longrightarrow>
              readFile disk filePath (Some offset) (Some limit) =
                join_js [''5 | '' @ split_js text [CHR 0x0A] ! 4,
                         ''6 | '' @ split_js text [CHR 0x0A] ! 5,
                         ''7 | '' @ split_js text [CHR 0x0A] ! 6] [CHR 0x0A])"
proof -
  let ?lines = "split_js text [CHR 0x0A]"
  let ?sel = "take (nat limit) (drop (nat (offset - 1)) ?lines)"
  have r: "readFile disk filePath (Some offset) (Some limit) =
             join_js (numbered offset ?sel) [CHR 0x0A]"
    using assms by (rule readFile_lines)
  have len: "length (numbered offset ?sel) = min (nat limit) (length ?lines - nat (offset - 1))"
    by (simp add: length_numbered min.commute)
  have nth: "numbered offset ?sel ! k =
               numberToString (offset + int k) @ '' | '' @ ?lines ! (nat (offset - 1) + k)"
    if "k < length (numbered offset ?sel)" for k
  proof -
    from that have k: "k < length ?sel" by (simp add: length_numbered)
    then have "nat (offset - 1) \<le> length ?lines" by simp arith
    then have "drop (nat (offset - 1)) ?lines ! k = ?lines ! (nat (offset - 1) + k)"
      by (rule nth_drop)
    with k show ?thesis by (simp add: nth_numbered)
  qed
  have beyond: "readFile disk filePath (Some offset) (Some limit) = []"
    if "int (length ?lines) < offset"
  proof -
    from that have "?sel = []" by simp
    with r show ?thesis by (simp add: numbered_def)
  qed
  have ten: "readFile disk filePath (Some offset) (Some limit) =
                join_js [''5 | '' @ ?lines ! 4, ''6 | '' @ ?lines ! 5, ''7 | '' @ ?lines ! 6]
                  [CHR 0x0A]"
    if "offset = 5 \<and> limit = 3 \<and> length ?lines = 10"
    using that readFile_ten_lines [OF assms(1)] by simp
  from r len nth beyond ten show ?thesis by blast
qed

text \<open>Claim C5, witness: lines 5 to 7 of the ten lines of \<open>notes.txt\<close>.\<close>

theorem readFile_window_witness:
  "files example_disk ''notes.txt'' =
     Some (join_js [''one'', ''two'', ''three'', ''four'', ''five'', ''six'',
                    ''seven'', ''eight'', ''nine'', ''ten''] [CHR 0x0A]) \<and>
   (1 :: int) \<le> 5 \<and> (0 :: int) \<le> 3 \<and>
   readFile example_disk ''notes.txt'' (Some 5) (Some 3) =
     ''5 | five'' @ [CHR 0x0A] @ ''6 | six'' @ [CHR 0x0A] @ ''7 | seven''"
proof -
  have h1: "files example_disk ''notes.txt'' =
     Some (join_js [''one'', ''two'', ''three'', ''four'', ''five'', ''six'',
                    ''seven'', ''eight'', ''nine'', ''ten''] [CHR 0x0A])"
    by (simp add: example_disk_def)
  have h2: "(1 :: int) \<le> 5" and h3: "(0 :: int) \<le> 3" by simp_all
  have s: "split_js (join_js [''one'', ''two'', ''three'', ''four'', ''five'', ''six'',
                    ''seven'', ''eight'', ''nine'', ''ten''] [CHR 0x0A]) [CHR 0x0A] =
     [''one'', ''two'', ''three'', ''four'', ''five'', ''six'', ''seven'', ''eight'', ''nine'',
      ''ten'']"
    by (rule split_js_join_js) simp_all
  from readFile_window [OF h1 h2 h3] obtain shown where
    "length (split_js (join_js [''one'', ''two'', ''three'', ''four'', ''five'', ''six'',
                    ''seven'', ''eight'', ''nine'', ''ten''] [CHR 0x0A]) [CHR 0x0A]) = 10 \<longrightarrow>
     readFile example_disk ''notes.txt'' (Some 5) (Some 3) =
       join_js [''5 | '' @ split_js (join_js [''one'', ''two'', ''three'', ''four'', ''five'',
                    ''six'', ''seven'', ''eight'', ''nine'', ''ten''] [CHR 0x0A]) [CHR 0x0A] ! 4,
                ''6 | '' @ split_js (join_js [''one'', ''two'', ''three'', ''four'', ''five'',
                    ''six'', ''seven'', ''eight'', ''nine'', ''ten''] [CHR 0x0A]) [CHR 0x0A] ! 5,
                ''7 | '' @ split_js (join_js [''one'', ''two'', ''three'', ''four'', ''five'',
                    ''six'', ''seven'', ''eight'', ''nine'', ''ten''] [CHR 0x0A]) [CHR 0x0A] ! 6]
         [CHR 0x0A]"
    by auto
  with s have "readFile example_disk ''notes.txt'' (Some 5) (Some 3) =
     ''5 | five'' @ [CHR 0x0A] @ ''6 | six'' @ [CHR 0x0A] @ ''7 | seven''"
    by simp
  with h1 show ?thesis by simp
qed

section \<open>Finding files (claim C6)\<close>

text \<open>
  Claim C6, at an input where the code departs from it. The code excludes the dependency
  directory with the option \<open>ignore: "node_modules/**"\<close>, which the glob library matches
  against paths relative to the working directory: it removes the \<open>node_modules\<close> directory
  at the top of the working tree and misses every \<open>node_modules\<close> directory below the top.
  In a project that holds \<open>node_modules/dep/z.test.js\<close> and
  \<open>pkg/node_modules/dep/q.test.js\<close>, the pattern \<open>**/*.test.js\<close> does not list the first
  file and lists the second: a file of a dependency directory is returned.
\<close>

theorem findFiles_lists_nested_node_modules:
  "files monorepo_disk ''node_modules/dep/z.test.js'' = Some ''z();'' \<and>
   files monorepo_disk ''pkg/node_modules/dep/q.test.js'' = Some ''q();'' \<and>
   findFiles example_platform monorepo_disk ''**/*.test.js'' =
     ''['' @ [CHR 0x22] @ ''/home/user/project/pkg/node_modules/dep/q.test.js'' @ [CHR 0x22]
       @ '']''"
proof -
  have "findFiles example_platform monorepo_disk ''**/*.test.js'' =
     ''['' @ [CHR 0x22] @ ''/home/user/project/pkg/node_modules/dep/q.test.js'' @ [CHR 0x22]
       @ '']''"
    by (simp add: findFiles_def example_platform_def example_glob_def glob_js_def
        plain_test_pattern monorepo_tree monorepo_selected
        stringify_strings_def quoteJSONString_def quoteJSONChar_def)
  then show ?thesis by (simp add: monorepo_disk_def)
qed

section \<open>Executing a tool call (claim C7)\<close>

text \<open>
  Claim C7, at an input where the code departs from it. No tool is registered under the
  name \<open>toString\<close>, yet the lookup in the registry object finds the member inherited from
  \<open>Object.prototype\<close>, the guard for a missing tool does not fire, and the call returns the
  text \<open>[object Undefined]\<close>: no error, and no text that names the missing tool.
\<close>

theorem executeTool_inherited_member:
  "availableTools ''toString'' = None \<and>
   fst (executeTool P R \<lparr>function_name = ''toString'', function_arguments = args\<rparr> st)
     = ''[object Undefined]''"
  by (simp add: executeTool_def lookup_tool_def availableTools_def object_prototype_def
      inherited_def Let_def)

section \<open>Searching file contents (claim C8)\<close>

text \<open>
  Claim C8, as amended. When the search command exits with a failure status and has
  printed nothing on its standard output (as \<open>grep\<close> does when nothing matches; the
  executor then rejects, with a message that is not empty), or exits normally with error
  output and no standard output, \<open>searchFileContents\<close> returns the text
  \<open>No matches found.\<close> and does not throw. When the command exits normally with standard
  output, the function returns exactly that output without the white space around it; no
  prefix of the form \<open>path:line\<close> is promised for its lines.
\<close>

theorem searchFileContents_outcomes:
  "(exec P disk (grep_command pattern (case searchPath of None \<Rightarrow> ''.'' | Some p \<Rightarrow> p)
        globPattern caseInsensitive) = Rejected err [] errout \<and> err \<noteq> [] \<or>
    exec P disk (grep_command pattern (case searchPath of None \<Rightarrow> ''.'' | Some p \<Rightarrow> p)
        globPattern caseInsensitive) = Resolved [] stderr \<and> stderr \<noteq> []
    \<longrightarrow> searchFileContents P disk pattern searchPath globPattern caseInsensitive
          = Inr ''No matches found.'') \<and>
   (exec P disk (grep_command pattern (case searchPath of None \<Rightarrow> ''.'' | Some p \<Rightarrow> p)
        globPattern caseInsensitive) = Resolved stdout stderr' \<and> stdout \<noteq> []
    \<longrightarrow> searchFileContents P disk pattern searchPath globPattern caseInsensitive
          = Inr (trim_js stdout))"
  by (auto simp: searchFileContents_def executeCommand_def truthy_def Let_def)

text \<open>Claim C8, witness: in the example the search for \<open>TODO\<close> fails and prints nothing,
  and the search for \<open>a =\<close> in the working directory prints one line, which carries the
  path and the line number.\<close>

theorem searchFileContents_outcomes_witness:
  "exec example_platform example_disk (grep_command ''TODO'' ''.'' None None)
     = Rejected (''Command failed: '' @ grep_command ''TODO'' ''.'' None None @ [CHR 0x0A])
         [] [] \<and>
   ''Command failed: '' @ grep_command ''TODO'' ''.'' None None @ [CHR 0x0A] \<noteq> [] \<and>
   searchFileContents example_platform example_disk ''TODO'' None None None
     = Inr ''No matches found.'' \<and>
   exec example_platform example_disk (grep_command ''a ='' ''.'' None None)
     = Resolved (''./a.js:1:a = 1;'' @ [CHR 0x0A]) [] \<and>
   ''./a.js:1:a = 1;'' @ [CHR 0x0A] \<noteq> [] \<and>
   searchFileContents example_platform example_disk ''a ='' None None None
     = Inr ''./a.js:1:a = 1;'' \<and>
   path_line_prefixed ''./a.js:1:a = 1;''"
proof -
  have h1: "exec example_platform example_disk (grep_command ''TODO'' ''.'' None None)
     = Rejected (''Command failed: '' @ grep_command ''TODO'' ''.'' None None @ [CHR 0x0A])
         [] [] \<and>
     ''Command failed: '' @ grep_command ''TODO'' ''.'' None None @ [CHR 0x0A] \<noteq> []"
    by (simp add: example_platform_def grep_command_def truthy_def)
  have h2: "exec example_platform example_disk (grep_command ''a ='' ''.'' None None)
     = Resolved (''./a.js:1:a = 1;'' @ [CHR 0x0A]) [] \<and> ''./a.js:1:a = 1;'' @ [CHR 0x0A] \<noteq> []"
    by (simp add: example_platform_def)
  have t: "trim_js (''./a.js:1:a = 1;'' @ [CHR 0x0A]) = ''./a.js:1:a = 1;''"
    by (simp add: trim_js_def isWhiteSpace_def)
  have f: "path_line_prefixed ''./a.js:1:a = 1;''"
    by (simp add: path_line_prefixed_def line_number_then_colon_def is_digit_def upt_rec)
  from searchFileContents_outcomes
         [where P = example_platform and disk = example_disk and pattern = "''TODO''"
            and searchPath = None and globPattern = None and caseInsensitive = None
            and err = "''Command failed: '' @ grep_command ''TODO'' ''.'' None None @ [CHR 0x0A]"
            and errout = "[]"]
       h1
  have r1: "searchFileContents example_platform example_disk ''TODO'' None None None
     = Inr ''No matches found.''"
    by simp
  from searchFileContents_outcomes
         [where P = example_platform and disk = example_disk and pattern = "''a =''"
            and searchPath = None and globPattern = None and caseInsensitive = None
            and stdout = "''./a.js:1:a = 1;'' @ [CHR 0x0A]" and stderr' = "[]"]
       h2 t
  have r2: "searchFileContents example_platform example_disk ''a ='' None None None
     = Inr ''./a.js:1:a = 1;''"
    by simp
  from h1 h2 r1 r2 f show ?thesis by blast
qed

text \<open>Claim C8, counterexample to the claim as stated: when the search path names the
  file \<open>a.js\<close> itself, \<open>grep -rn\<close> prints the matched line with its line number and no path.
  A match exists, and the line returned has no prefix of the form \<open>path:line\<close>.\<close>

theorem searchFileContents_line_without_path:
  "exec example_platform example_disk (grep_command ''a ='' ''a.js'' None None)
     = Resolved (''1:a = 1;'' @ [CHR 0x0A]) [] \<and>
   searchFileContents example_platform example_disk ''a ='' (Some ''a.js'') None None
     = Inr ''1:a = 1;'' \<and>
   \<not> path_line_prefixed ''1:a = 1;''"
  by (simp add: example_platform_def searchFileContents_def executeCommand_def truthy_def
      grep_command_def trim_js_def isWhiteSpace_def Let_def
      path_line_prefixed_def line_number_then_colon_def is_digit_def upt_rec)

section \<open>The non-streaming variant (claim C9)\<close>

text \<open>
  Claim C9, as amended. The non-streaming variant sends no tool descriptors and executes
  no tool call. For a user input on which the streamed reply carries no call (its last
  batch is empty) and the one-shot reply has the text of the streamed deltas, both
  variants end the turn waiting for the user, having appended the same two messages in the
  same order: the user message and an assistant message with that text.
\<close>

theorem no_stream_agrees_without_tool_calls:
  assumes "ollama_chat B
             (agent_request (messages st @ [user_message userInput])) = Completed parts"
    and "last_batch parts = []"
    and "fetch_chat B
             (callChat_request (messages st @ [user_message userInput])) = Ok_reply reply"
    and "content reply = deltas parts"
  shows "fst (chat (Suc turns) P R B [userInput] st) = AwaitingUser \<and>
         fst (chat_no_stream B [userInput] st) = AwaitingUser \<and>
         messages (snd (chat (Suc turns) P R B [userInput] st)) =
           messages st @ [user_message userInput, assistant_message (deltas parts)] \<and>
         messages (snd (chat_no_stream B [userInput] st)) =
           messages st @ [user_message userInput, assistant_message (deltas parts)] \<and>
         fs (snd (chat (Suc turns) P R B [userInput] st)) = fs st"
  using assms
  by (simp add: callAgent_def callChat_def aggregate_eq user_message_def assistant_message_def
      Let_def)

text \<open>Claim C9, witness: greeted, the example backend answers \<open>Done.\<close>, in two parts
  when it streams.\<close>

theorem no_stream_agrees_without_tool_calls_witness:
  "ollama_chat example_backend
     (agent_request (messages example_state @ [user_message ''hello'']))
     = Completed [\<lparr>message = assistant_message ''Done''\<rparr>,
                  \<lparr>message = assistant_message ''.''\<rparr>] \<and>
   last_batch [\<lparr>message = assistant_message ''Done''\<rparr>, \<lparr>message = assistant_message ''.''\<rparr>]
     = [] \<and>
   fetch_chat example_backend
     (callChat_request (messages example_state @ [user_message ''hello'']))
     = Ok_reply (assistant_message ''Done.'') \<and>
   content (assistant_message ''Done.'') =
     deltas [\<lparr>message = assistant_message ''Done''\<rparr>, \<lparr>message = assistant_message ''.''\<rparr>] \<and>
   messages (snd (chat (Suc 0) example_platform example_runtime example_backend [''hello'']
      example_state)) =
     messages (snd (chat_no_stream example_backend [''hello''] example_state))"
proof -
  have h1: "ollama_chat example_backend
     (agent_request (messages example_state @ [user_message ''hello'']))
     = Completed [\<lparr>message = assistant_message ''Done''\<rparr>,
                  \<lparr>message = assistant_message ''.''\<rparr>]"
    by (simp add: example_backend_def user_message_def agent_request_def)
  have h2: "last_batch [\<lparr>message = assistant_message ''Done''\<rparr>,
                        \<lparr>message = assistant_message ''.''\<rparr>] = []"
    by (simp add: last_batch_def batches_def map_filter_def assistant_message_def)
  have h3: "fetch_chat example_backend
     (callChat_request (messages example_state @ [user_message ''hello'']))
     = Ok_reply (assistant_message ''Done.'')"
    by (simp add: example_backend_def user_message_def callChat_request_def)
  have h4: "content (assistant_message ''Done.'') =
     deltas [\<lparr>message = assistant_message ''Done''\<rparr>, \<lparr>message = assistant_message ''.''\<rparr>]"
    by (simp add: deltas_def assistant_message_def)
  from no_stream_agrees_without_tool_calls
         [OF h1 h2 h3 h4, of 0 example_platform example_runtime]
  have "messages (snd (chat (Suc 0) example_platform example_runtime example_backend
            [''hello''] example_state)) =
     messages (snd (chat_no_stream example_backend [''hello''] example_state))"
    by simp
  with h1 h2 h3 h4 show ?thesis by blast
qed

text \<open>Claim C9, counterexample to the claim as stated: the request of the non-streaming
  variant carries no tool descriptors, while the request of the tool-calling loop carries
  them; and given the same reply, one that asks for a tool call, the tool-calling loop
  appends the assistant message, the tool message and the assistant message of the next
  model turn, while the non-streaming variant appends the text of the reply alone: the
  two histories differ.\<close>

theorem no_stream_ignores_tool_calls:
  "request_tools (callChat_request (messages example_state)) = None \<and>
   request_tools (agent_request (messages example_state)) = Some tools \<and>
   map role (messages (snd (chat (Suc (Suc 0)) example_platform example_runtime
      example_backend [''find the tests''] example_state)))
     = [System, User, Assistant, Tool, Assistant] \<and>
   map role (messages (snd (chat_no_stream example_backend [''find the tests'']
      example_state)))
     = [System, User, Assistant] \<and>
   messages (snd (chat (Suc (Suc 0)) example_platform example_runtime
      example_backend [''find the tests''] example_state))
     \<noteq> messages (snd (chat_no_stream example_backend [''find the tests''] example_state))"
proof -
  have s: "map role (messages (snd (chat (Suc (Suc 0)) example_platform example_runtime
      example_backend [''find the tests''] example_state)))
     = [System, User, Assistant, Tool, Assistant]"
    by (simp add: example_defs callAgent_def aggregate_def consume_def executeTool_def
        lookup_tool_def availableTools_def findFiles_tool_def required_string_def Let_def)
  have n: "map role (messages (snd (chat_no_stream example_backend [''find the tests'']
      example_state)))
     = [System, User, Assistant]"
    by (simp add: example_defs callChat_def Let_def)
  from s n have "map role (messages (snd (chat (Suc (Suc 0)) example_platform example_runtime
      example_backend [''find the tests''] example_state)))
     \<noteq> map role (messages (snd (chat_no_stream example_backend [''find the tests'']
      example_state)))"
    by simp
  then have "messages (snd (chat (Suc (Suc 0)) example_platform example_runtime
      example_backend [''find the tests''] example_state))
     \<noteq> messages (snd (chat_no_stream example_backend [''find the tests''] example_state))"
    by auto
  with s n show ?thesis by (simp add: callChat_request_def agent_request_def)
qed

end
